theory Spec2Isabelle
  imports Main "HOL-Library.Sublist"
begin

section \<open>The Cybernate SDK client: connection and event delivery\<close>

text \<open>
  A shallow embedding of the class \<open>CybernateAI\<close> of \<open>src/index.js\<close>: the session object
  is a record that every method takes and returns, a thrown \<open>Error\<close> (a rejected promise of
  an \<open>async\<close> method) is the left summand of the result, and everything a method does to
  the outside world (a \<open>fetch\<close>, a call of the socket library, a timer, a console line, the
  call of a listener) is an entry of the effect list it returns, in program order.

  What the outside world answers is an argument: the outcome of a \<open>fetch\<close>, the messages
  the socket emits while a stream setup is awaited, whether the socket library can be
  loaded, and whether a listener throws.

  Scope of the model.
  \<^item> A listener is a function object; the model keeps its identity (a number) and whether
    it throws on a given event. A listener that calls \<open>on\<close>/\<open>off\<close> of the same client while
    it is being dispatched is outside the model.
  \<^item> \<open>this.eventListeners\<close> is a map from tags to arrays (its own properties), read
    through the properties it inherits from \<open>Object.prototype\<close>.
  \<^item> JavaScript values are typed: a tag, an id and a message are strings (falsy exactly
    when empty), an absent property is \<open>None\<close>, numbers are unbounded integers or NaN.
\<close>

subsection \<open>Values\<close>

datatype js_error = Error string | TypeError string

fun message :: "js_error \<Rightarrow> string" where
  "message (Error m) = m"
| "message (TypeError m) = m"

text \<open>\<open>String.prototype.includes\<close>.\<close>

fun includes_str :: "string \<Rightarrow> string \<Rightarrow> bool" where
  "includes_str [] needle = (needle = [])"
| "includes_str (x # xs) needle =
     (take (length needle) (x # xs) = needle \<or> includes_str xs needle)"

text \<open>Truthiness of an optional string property: \<open>undefined\<close> and \<open>""\<close> are falsy.\<close>

fun truthy :: "string option \<Rightarrow> bool" where
  "truthy None = False"
| "truthy (Some s) = (s \<noteq> [])"

text \<open>\<open>a || b\<close> on an optional string with a string default.\<close>

definition or_default :: "string option \<Rightarrow> string \<Rightarrow> string" where
  "or_default a b = (case a of None \<Rightarrow> b | Some s \<Rightarrow> if s = [] then b else s)"

text \<open>
  A parsed JSON body: \<open>null\<close>, or a value whose properties can be read (the property
  values are kept as opaque strings; a property that is missing reads as \<open>undefined\<close>).
  Reading a property of \<open>null\<close> throws a TypeError.
\<close>

datatype json = JNull | JObject "(string \<times> string) list"

fun get_prop :: "json \<Rightarrow> string \<Rightarrow> js_error + string option" where
  "get_prop JNull k =
     Inl (TypeError (''Cannot read properties of null (reading '' @ [CHR 0x27] @ k @
                     [CHR 0x27] @ '')''))"
| "get_prop (JObject kvs) k = Inr (map_of kvs k)"

datatype jsnum = NaN | Num int

subsection \<open>\<open>parseInt(s, 10)\<close>\<close>

definition is_space :: "char \<Rightarrow> bool" where
  "is_space ch = (ch \<in> set [CHR '' '', CHR 0x09, CHR 0x0A, CHR 0x0B, CHR 0x0C, CHR 0x0D])"

definition is_digit :: "char \<Rightarrow> bool" where
  "is_digit ch = (ch \<in> set ''0123456789'')"

definition digit_val :: "char \<Rightarrow> int" where
  "digit_val ch = int (of_char ch) - 48"

definition digits_val :: "string \<Rightarrow> int" where
  "digits_val ds = foldl (\<lambda>acc ch. 10 * acc + digit_val ch) 0 ds"

definition parseInt :: "string \<Rightarrow> jsnum" where
  "parseInt s =
     (let t = dropWhile is_space s;
          neg = (t \<noteq> [] \<and> hd t = CHR ''-'');
          u = (if t \<noteq> [] \<and> (hd t = CHR ''-'' \<or> hd t = CHR ''+'') then tl t else t);
          ds = takeWhile is_digit u
      in if ds = [] then NaN else Num (if neg then - digits_val ds else digits_val ds))"

subsection \<open>The session object\<close>

type_synonym callback = nat

record event =
  eventType :: "string option"
  data :: string

text \<open>
  The options of \<open>watch\<close> and the payload it sends (\<open>notifyMethod\<close> is the property
  \<open>method\<close> of the notification settings).
\<close>

record notification_settings =
  notifyMethod :: "string option"
  webhookUrl :: "string option"

record watch_options =
  streamUrl :: "string option"
  deviceId :: "string option"
  businessId :: "string option"
  name :: "string option"
  detectionSettings :: "string option"
  notificationSettings :: "notification_settings option"

datatype target =
    StreamTarget "string option" string
  | DeviceTarget "string option"
  | BusinessTarget "string option"

datatype watch_payload = Payload target string notification_settings

datatype timer = ReconnectTimer | ConnectionTimeout

text \<open>
  \<open>Fetch method url body\<close> is the call of \<open>fetch\<close>; \<open>SetupAttempt\<close> marks the entry of
  \<open>_setupWebSocket\<close>, so that stream-setup attempts can be counted; \<open>SocketOpen url\<close> is
  the call \<open>io(url, ...)\<close> and \<open>SocketDisconnect\<close> the call \<open>socket.disconnect()\<close>.
\<close>

datatype effect =
    Fetch string string "watch_payload option"
  | SetupAttempt
  | SocketOpen string
  | SocketDisconnect
  | SetTimeout nat timer
  | ClearTimeout timer
  | ConsoleLog string
  | ConsoleWarn string
  | ConsoleError string
  | Invoke callback event

record sock =
  connected :: bool

record rate_limit =
  limit :: jsnum
  remaining :: jsnum
  reset :: jsnum

record watcher =
  watcherId :: "string option"
  watcherType :: "string option"
  entityId :: "string option"
  createdAt :: string

record client =
  apiKey :: string
  baseUrl :: string
  timeout :: nat
  autoReconnect :: bool
  enableWebSocket :: bool
  reconnectAttempts :: nat
  reconnectDelay :: nat
  eventListeners :: "string \<rightharpoonup> callback list"
  activeWatchers :: "string option \<rightharpoonup> watcher"
  socket :: "sock option"
  isConnected :: bool
  isConnecting :: bool
  reconnectCount :: nat
  rateLimit :: rate_limit
  user :: "string option"
  organization :: "string option"

text \<open>\<open>this.socket?.connected\<close>, read as a condition.\<close>

definition socket_connected :: "client \<Rightarrow> bool" where
  "socket_connected c = (case socket c of None \<Rightarrow> False | Some s \<Rightarrow> connected s)"

text \<open>
  The constructor. An option left out is \<open>None\<close>; \<open>||\<close> replaces a falsy option (an
  empty URL, a zero) by the default, and \<open>!== false\<close> makes a flag true unless the
  option is \<open>false\<close>.
\<close>

record options =
  opt_baseUrl :: "string option"
  opt_timeout :: "nat option"
  opt_autoReconnect :: "bool option"
  opt_enableWebSocket :: "bool option"
  opt_reconnectAttempts :: "nat option"
  opt_reconnectDelay :: "nat option"

definition nat_or_default :: "nat option \<Rightarrow> nat \<Rightarrow> nat" where
  "nat_or_default a b = (case a of None \<Rightarrow> b | Some n \<Rightarrow> if n = 0 then b else n)"

definition new_client :: "string \<Rightarrow> options \<Rightarrow> js_error + client" where
  "new_client key opts =
     (if key = [] then Inl (Error ''API key is required'')
      else
        Inr \<lparr> apiKey = key,
              baseUrl = or_default (opt_baseUrl opts) ''https://api.cybernate.ai/v1'',
              timeout = nat_or_default (opt_timeout opts) 30000,
              autoReconnect = (opt_autoReconnect opts \<noteq> Some False),
              enableWebSocket = (opt_enableWebSocket opts \<noteq> Some False),
              reconnectAttempts = nat_or_default (opt_reconnectAttempts opts) 5,
              reconnectDelay = nat_or_default (opt_reconnectDelay opts) 1000,
              eventListeners = Map.empty, activeWatchers = Map.empty, socket = None,
              isConnected = False, isConnecting = False, reconnectCount = 0,
              rateLimit = \<lparr> limit = Num 0, remaining = Num 0, reset = Num 0 \<rparr>,
              user = None, organization = None \<rparr>)"

text \<open>The session the constructor builds when no option is given.\<close>

definition initial_client :: "string \<Rightarrow> client" where
  "initial_client key =
     \<lparr> apiKey = key, baseUrl = ''https://api.cybernate.ai/v1'', timeout = 30000,
       autoReconnect = True, enableWebSocket = True, reconnectAttempts = 5,
       reconnectDelay = 1000, eventListeners = Map.empty,
       activeWatchers = Map.empty, socket = None, isConnected = False,
       isConnecting = False, reconnectCount = 0,
       rateLimit = \<lparr> limit = Num 0, remaining = Num 0, reset = Num 0 \<rparr>,
       user = None, organization = None \<rparr>"

subsection \<open>The runtime environment\<close>

text \<open>
  Where the socket library comes from: \<open>window.io\<close> in a browser, \<open>require\<close> under Node
  (\<open>require.resolve\<close> finds the package or not, and \<open>require\<close> itself succeeds or
  throws), or nowhere. \<open>io_throws\<close> is the message of the exception the call \<open>io(...)\<close>
  raises, if it raises one; \<open>now\<close> is the clock, as \<open>new Date()\<close> prints it.
\<close>

datatype io_source = BrowserIO | NodeIO bool bool | NoIO

record env =
  io_source :: io_source
  io_throws :: "string option"
  now :: string

fun isSocketIOAvailable :: "io_source \<Rightarrow> bool" where
  "isSocketIOAvailable (NodeIO resolvable loads) = resolvable"
| "isSocketIOAvailable _ = False"

definition socketIsEnabled :: "env \<Rightarrow> bool" where
  "socketIsEnabled e = (io_source e = BrowserIO \<or> isSocketIOAvailable (io_source e))"

definition ensureConnected :: "client \<Rightarrow> js_error + unit" where
  "ensureConnected c =
     (if \<not> isConnected c then Inl (Error ''Not connected to Cybernate API. Call connect() first.'')
      else Inr ())"

subsection \<open>\<open>_request\<close>\<close>

text \<open>
  What \<open>fetch\<close> answers: it rejects with a message, or it resolves with a response
  whose body \<open>response.json()\<close> parses or fails to parse. \<open>headers\<close> is \<open>headers.get\<close>
  at the name the code asks for.
\<close>

datatype body = Unparseable string | Parsed json

record response =
  status :: nat
  statusText :: string
  headers :: "string \<rightharpoonup> string"
  body :: body

datatype fetch_outcome = FetchRejects string | FetchResponse response

definition ok :: "response \<Rightarrow> bool" where
  "ok r = (200 \<le> status r \<and> status r \<le> 299)"

fun show_nat :: "nat \<Rightarrow> string" where
  "show_nat n =
     (if n < 10 then [char_of (48 + n)] else show_nat (n div 10) @ [char_of (48 + n mod 10)])"

definition track_rate_limits :: "response \<Rightarrow> rate_limit \<Rightarrow> rate_limit" where
  "track_rate_limits r rl =
     (let rl1 = (case headers r ''X-RateLimit-Limit'' of
                   None \<Rightarrow> rl | Some v \<Rightarrow> rl\<lparr>limit := parseInt v\<rparr>);
          rl2 = (case headers r ''X-RateLimit-Remaining'' of
                   None \<Rightarrow> rl1 | Some v \<Rightarrow> rl1\<lparr>remaining := parseInt v\<rparr>)
      in (case headers r ''X-RateLimit-Reset'' of
            None \<Rightarrow> rl2 | Some v \<Rightarrow> rl2\<lparr>reset := parseInt v\<rparr>))"

text \<open>The message thrown for a response that is not ok, by status.\<close>

definition http_error_message :: "nat \<Rightarrow> string option \<Rightarrow> string" where
  "http_error_message st m =
     (if st = 401 then ''Authentication failed: '' @ or_default m ''Invalid API key''
      else if st = 403 then ''Access forbidden: '' @ or_default m ''Insufficient permissions''
      else if st = 404 then
        ''Endpoint not found: '' @ or_default m ''The requested resource was not found''
      else if st \<ge> 500 then ''Server error: '' @ or_default m ''Internal server error''
      else or_default m (''HTTP error '' @ show_nat st))"

text \<open>The outer \<open>catch\<close> of \<open>_request\<close>: every failure is thrown again, reworded.\<close>

definition request_failed :: "string \<Rightarrow> string \<Rightarrow> js_error" where
  "request_failed url m =
     (if includes_str m ''fetch'' then
        Error (''Network error: Unable to connect to '' @ url @
               ''. Please check your internet connection.'')
      else Error (''API request failed: '' @ m))"

text \<open>
  \<open>_request\<close> up to its first \<open>await\<close> (the request goes out), and from there on (the
  answer is handled).
\<close>

definition request_send :: "client \<Rightarrow> string \<Rightarrow> string \<Rightarrow> watch_payload option \<Rightarrow> effect list" where
  "request_send c meth path dat =
     [ConsoleLog ''API Request:'',
      Fetch meth (baseUrl c @ path)
        (if meth = ''POST'' \<or> meth = ''PUT'' \<or> meth = ''PATCH'' then dat else None)]"

definition request_receive ::
  "client \<Rightarrow> string \<Rightarrow> fetch_outcome \<Rightarrow> (js_error + json) \<times> client \<times> effect list" where
  "request_receive c path outcome =
     (let url = baseUrl c @ path in
      case outcome of
        FetchRejects m \<Rightarrow> (Inl (request_failed url m), c, [])
      | FetchResponse r \<Rightarrow>
          (let c1 = c\<lparr>rateLimit := track_rate_limits r (rateLimit c)\<rparr> in
           if \<not> ok r then
             (let errorData =
                    (case body r of
                       Unparseable e \<Rightarrow>
                         JObject [(''message'',
                                   ''HTTP '' @ show_nat (status r) @ '': '' @ statusText r)]
                     | Parsed j \<Rightarrow> j)
              in case get_prop errorData ''message'' of
                   Inl e \<Rightarrow>
                     (Inl (request_failed url (message e)), c1,
                      [ConsoleError ''API Error Response:''])
                 | Inr m \<Rightarrow>
                     (Inl (request_failed url (http_error_message (status r) m)), c1,
                      [ConsoleError ''API Error Response:'']))
           else
             (case body r of
                Unparseable e \<Rightarrow> (Inl (request_failed url e), c1, [])
              | Parsed j \<Rightarrow> (Inr j, c1, [ConsoleLog ''API Response:'']))))"

definition request ::
  "client \<Rightarrow> string \<Rightarrow> string \<Rightarrow> watch_payload option \<Rightarrow> fetch_outcome
     \<Rightarrow> (js_error + json) \<times> client \<times> effect list" where
  "request c meth path dat outcome =
     (case request_receive c path outcome of
        (res, c1, effs) \<Rightarrow> (res, c1, request_send c meth path dat @ effs))"

subsection \<open>The event stream\<close>

text \<open>
  The promise \<open>_setupWebSocket\<close> returns is pending, resolved or rejected. The body of
  the promise runs at once: it loads the socket library, closes the socket in place,
  opens a new one (not yet connected) and starts the connection timeout.
\<close>

datatype settle = Pending | Resolved | Rejected js_error

definition open_socket :: "client \<Rightarrow> env \<Rightarrow> settle \<times> client \<times> effect list" where
  "open_socket c e =
     (let closing = (case socket c of None \<Rightarrow> [] | Some s \<Rightarrow> [SocketDisconnect]);
          c1 = c\<lparr>socket := None\<rparr>
      in case io_throws e of
           Some m \<Rightarrow> (Rejected (Error (''Failed to initialize WebSocket: '' @ m)), c1, closing)
         | None \<Rightarrow>
             (Pending, c1\<lparr>socket := Some \<lparr>connected = False\<rparr>\<rparr>,
              closing @ [SocketOpen (baseUrl c @ ''/events''),
                         SetTimeout (timeout c) ConnectionTimeout]))"

definition setupWebSocket :: "client \<Rightarrow> env \<Rightarrow> settle \<times> client \<times> effect list" where
  "setupWebSocket c e =
     (if \<not> socketIsEnabled e then
        (Rejected (Error ''WebSocket not enabled or supported''), c, [SetupAttempt])
      else
        (case io_source e of
           BrowserIO \<Rightarrow>
             (case open_socket c e of (r, c1, effs) \<Rightarrow> (r, c1, SetupAttempt # effs))
         | NodeIO resolvable loads \<Rightarrow>
             if loads then
               (case open_socket c e of (r, c1, effs) \<Rightarrow> (r, c1, SetupAttempt # effs))
             else
               (Rejected (Error (''socket.io-client package not found. '' @
                                 ''Install with: npm install socket.io-client'')),
                c, [SetupAttempt])
         | NoIO \<Rightarrow>
             (Rejected (Error (''Socket.io client not available. '' @
                               ''Include socket.io-client in your project.'')),
              c, [SetupAttempt])))"

text \<open>
  The handlers the setup installs. The socket library sets \<open>socket.connected\<close> before
  it emits \<open>connect\<close> and clears it before it emits \<open>disconnect\<close>; the model does so in
  the handler.
\<close>

definition on_connect :: "client \<Rightarrow> client \<times> effect list" where
  "on_connect c =
     (c\<lparr>socket := map_option (\<lambda>s. s\<lparr>connected := True\<rparr>) (socket c), reconnectCount := 0\<rparr>,
      [ConsoleLog ''Connected to Cybernate events socket'', ClearTimeout ConnectionTimeout])"

definition on_disconnect :: "client \<Rightarrow> string \<Rightarrow> client \<times> effect list" where
  "on_disconnect c reason =
     (c\<lparr>socket := map_option (\<lambda>s. s\<lparr>connected := False\<rparr>) (socket c)\<rparr>,
      ConsoleLog ''Disconnected from Cybernate events socket:'' #
      (if reason = ''io server disconnect'' \<and> autoReconnect c then
         [SetTimeout (reconnectDelay c) ReconnectTimer]
       else []))"

text \<open>The function the \<open>disconnect\<close> handler hands to \<open>setTimeout\<close>, when the timer fires.\<close>

definition reconnect_timer :: "client \<Rightarrow> env \<Rightarrow> client \<times> effect list" where
  "reconnect_timer c e =
     (if reconnectCount c < reconnectAttempts c then
        (let c1 = c\<lparr>reconnectCount := reconnectCount c + 1\<rparr> in
         case setupWebSocket c1 e of
           (r, c2, effs) \<Rightarrow>
             (c2,
              ConsoleLog (''Attempting to reconnect ('' @ show_nat (reconnectCount c1) @ ''/'' @
                          show_nat (reconnectAttempts c1) @ '')...'') # effs))
      else (c, []))"

text \<open>
  What can happen while the promise is pending: the socket emits \<open>connect\<close> or
  \<open>connect_error\<close>, or the connection timeout fires. \<open>await_setup\<close> runs the handlers on
  these, in the order they happen, until the promise settles.
\<close>

datatype setup_event = EvConnect | EvConnectError string | EvTimeout

fun await_setup :: "client \<Rightarrow> setup_event list \<Rightarrow> settle \<times> client \<times> effect list" where
  "await_setup c [] = (Pending, c, [])"
| "await_setup c (EvConnect # evs) =
     (case on_connect c of (c1, effs) \<Rightarrow> (Resolved, c1, effs))"
| "await_setup c (EvConnectError m # evs) =
     (if reconnectCount c = 0 then
        (Rejected (Error (''WebSocket connection failed: '' @ m)), c,
         [ConsoleError ''Socket connection error:''])
      else
        (case await_setup c evs of
           (r, c1, effs) \<Rightarrow> (r, c1, ConsoleError ''Socket connection error:'' # effs)))"
| "await_setup c (EvTimeout # evs) =
     (if \<not> socket_connected c then
        (Rejected (Error ''WebSocket connection timeout''), c,
         (case socket c of None \<Rightarrow> [] | Some s \<Rightarrow> [SocketDisconnect]))
      else await_setup c evs)"

text \<open>\<open>await this._setupWebSocket()\<close>: the body of the promise, then the wait.\<close>

definition await_setupWebSocket ::
  "client \<Rightarrow> env \<Rightarrow> setup_event list \<Rightarrow> settle \<times> client \<times> effect list" where
  "await_setupWebSocket c e evs =
     (case setupWebSocket c e of
        (Pending, c1, effs) \<Rightarrow>
          (case await_setup c1 evs of (r, c2, effs2) \<Rightarrow> (r, c2, effs @ effs2))
      | (r, c1, effs) \<Rightarrow> (r, c1, effs))"

subsection \<open>\<open>connect\<close> and \<open>disconnect\<close>\<close>

record connect_result =
  res_connected :: bool
  res_user :: "string option"
  res_organization :: "string option"
  websocketEnabled :: bool

text \<open>
  \<open>connect\<close> up to its first \<open>await\<close>: the guard, the flag, and the validation request
  going out.
\<close>

definition connect_begin :: "client \<Rightarrow> (js_error + unit) \<times> client \<times> effect list" where
  "connect_begin c =
     (if isConnecting c then (Inl (Error ''Connection already in progress''), c, [])
      else
        (let c1 = c\<lparr>isConnecting := True\<rparr>
         in (Inr (), c1, request_send c1 ''GET'' ''/auth/validate'' None)))"

text \<open>The \<open>catch\<close> of \<open>connect\<close>, and its successful end.\<close>

definition connect_failed ::
  "js_error \<Rightarrow> client \<Rightarrow> effect list
     \<Rightarrow> (js_error + connect_result) option \<times> client \<times> effect list" where
  "connect_failed err c effs =
     (Some (Inl (Error (''Failed to connect to Cybernate: '' @ message err))),
      c\<lparr>isConnected := False, isConnecting := False\<rparr>, effs)"

definition connect_done ::
  "client \<Rightarrow> effect list \<Rightarrow> (js_error + connect_result) option \<times> client \<times> effect list" where
  "connect_done c effs =
     (let c1 = c\<lparr>isConnected := True, isConnecting := False\<rparr>
      in (Some (Inr \<lparr>res_connected = True, res_user = user c1,
                      res_organization = organization c1,
                      websocketEnabled = socket_connected c1\<rparr>),
          c1, effs))"

text \<open>
  \<open>connect\<close> from the answer of the validation request on. The result is \<open>None\<close> when
  the stream setup never settles (the promise of \<open>connect\<close> stays pending).
\<close>

definition connect_resume ::
  "client \<Rightarrow> env \<Rightarrow> fetch_outcome \<Rightarrow> setup_event list
     \<Rightarrow> (js_error + connect_result) option \<times> client \<times> effect list" where
  "connect_resume c e outcome evs =
     (case request_receive c ''/auth/validate'' outcome of
        (Inl err, c1, effs) \<Rightarrow> connect_failed err c1 effs
      | (Inr response, c1, effs) \<Rightarrow>
          (case get_prop response ''user'' of
             Inl err \<Rightarrow> connect_failed err c1 effs
           | Inr u \<Rightarrow>
               (case get_prop response ''organization'' of
                  Inl err \<Rightarrow> connect_failed err (c1\<lparr>user := u\<rparr>) effs
                | Inr org \<Rightarrow>
                    (let c2 = c1\<lparr>user := u, organization := org\<rparr> in
                     if enableWebSocket c2 \<and> socketIsEnabled e then
                       (case await_setupWebSocket c2 e evs of
                          (Pending, c3, effs2) \<Rightarrow> (None, c3, effs @ effs2)
                        | (Resolved, c3, effs2) \<Rightarrow> connect_done c3 (effs @ effs2)
                        | (Rejected err, c3, effs2) \<Rightarrow>
                            connect_done c3
                              (effs @ effs2 @
                               [ConsoleWarn (''WebSocket connection failed, '' @
                                             ''falling back to HTTP-only mode: '' @
                                             message err)]))
                     else connect_done c2 effs))))"

definition connect ::
  "client \<Rightarrow> env \<Rightarrow> fetch_outcome \<Rightarrow> setup_event list
     \<Rightarrow> (js_error + connect_result) option \<times> client \<times> effect list" where
  "connect c e outcome evs =
     (case connect_begin c of
        (Inl err, c1, effs) \<Rightarrow> (Some (Inl err), c1, effs)
      | (Inr u, c1, effs) \<Rightarrow>
          (case connect_resume c1 e outcome evs of
             (res, c2, effs2) \<Rightarrow> (res, c2, effs @ effs2)))"

definition disconnect :: "client \<Rightarrow> client \<times> effect list" where
  "disconnect c =
     (case (case socket c of
              None \<Rightarrow> (c, [])
            | Some s \<Rightarrow> (c\<lparr>socket := None\<rparr>, [SocketDisconnect])) of
        (c1, effs) \<Rightarrow>
          (c1\<lparr>isConnected := False, isConnecting := False, reconnectCount := 0,
              activeWatchers := Map.empty\<rparr>,
           effs))"

definition retryWebSocketConnection ::
  "client \<Rightarrow> env \<Rightarrow> setup_event list \<Rightarrow> (js_error + bool) option \<times> client \<times> effect list" where
  "retryWebSocketConnection c e evs =
     (if \<not> enableWebSocket c \<or> \<not> socketIsEnabled e then
        (Some (Inl (Error ''WebSocket not enabled or available'')), c, [])
      else if socket_connected c then (Some (Inr True), c, [])
      else
        (case await_setupWebSocket c e evs of
           (Pending, c1, effs) \<Rightarrow> (None, c1, effs)
         | (Resolved, c1, effs) \<Rightarrow> (Some (Inr True), c1, effs)
         | (Rejected err, c1, effs) \<Rightarrow>
             (Some (Inr False), c1,
              effs @ [ConsoleError (''Manual WebSocket retry failed: '' @ message err)])))"

subsection \<open>\<open>watch\<close>\<close>

text \<open>
  \<open>watch\<close> before it calls \<open>_request\<close>. \<open>watch_build\<close> chooses the endpoint and builds the
  payload with its notification settings; \<open>watch_prepare\<close> is the connected check and
  the validation of the options around it.
\<close>

definition watch_build :: "client \<Rightarrow> env \<Rightarrow> watch_options \<Rightarrow> string \<times> watch_payload" where
  "watch_build c e opts =
     (let settings = (case detectionSettings opts of None \<Rightarrow> ''{}'' | Some d \<Rightarrow> d);
          (endpoint, tgt) =
            (if truthy (streamUrl opts) then
               (''/streams/watch'',
                StreamTarget (streamUrl opts) (or_default (name opts) (''Stream '' @ now e)))
             else if truthy (deviceId opts) then
               (''/devices/watch'', DeviceTarget (deviceId opts))
             else (''/businesses/watch'', BusinessTarget (businessId opts)));
          notification =
            (case notificationSettings opts of
               Some n \<Rightarrow> n
             | None \<Rightarrow>
                 \<lparr>notifyMethod = Some (if socket_connected c then ''socket'' else ''webhook''),
                  webhookUrl = None\<rparr>)
      in (endpoint, Payload tgt settings notification))"

definition watch_prepare :: "client \<Rightarrow> env \<Rightarrow> watch_options \<Rightarrow> js_error + string \<times> watch_payload" where
  "watch_prepare c e opts =
     (case ensureConnected c of
        Inl err \<Rightarrow> Inl err
      | Inr u \<Rightarrow>
          if \<not> truthy (streamUrl opts) \<and> \<not> truthy (deviceId opts) \<and> \<not> truthy (businessId opts)
          then Inl (Error ''You must specify either streamUrl, deviceId, or businessId'')
          else
            (case watch_build c e opts of
               (endpoint, Payload tgt settings notification) \<Rightarrow>
                 if notifyMethod notification = Some ''webhook'' \<and> \<not> truthy (webhookUrl notification)
                 then Inl (Error ''webhookUrl is required for webhook notifications'')
                 else Inr (endpoint, Payload tgt settings notification)))"

definition watch ::
  "client \<Rightarrow> env \<Rightarrow> watch_options \<Rightarrow> fetch_outcome \<Rightarrow> (js_error + json) \<times> client \<times> effect list" where
  "watch c e opts outcome =
     (case watch_prepare c e opts of
        Inl err \<Rightarrow> (Inl err, c, [])
      | Inr (endpoint, dat) \<Rightarrow>
          (case request c ''POST'' endpoint (Some dat) outcome of
             (Inl err, c1, effs) \<Rightarrow> (Inl err, c1, ConsoleLog ''Watch request:'' # effs)
           | (Inr response, c1, effs) \<Rightarrow>
               (case get_prop response ''watcherId'' of
                  Inl err \<Rightarrow> (Inl err, c1, ConsoleLog ''Watch request:'' # effs)
                | Inr wid \<Rightarrow>
                    (case get_prop response ''type'' of
                       Inl err \<Rightarrow> (Inl err, c1, ConsoleLog ''Watch request:'' # effs)
                     | Inr ty \<Rightarrow>
                         (case get_prop response ''entityId'' of
                            Inl err \<Rightarrow> (Inl err, c1, ConsoleLog ''Watch request:'' # effs)
                          | Inr eid \<Rightarrow>
                              (Inr response,
                               c1\<lparr>activeWatchers := (activeWatchers c1)
                                    (wid \<mapsto> \<lparr>watcherId = wid, watcherType = ty,
                                             entityId = eid, createdAt = now e\<rparr>)\<rparr>,
                               ConsoleLog ''Watch request:'' # effs))))))"

subsection \<open>The listener table\<close>

text \<open>
  The second argument of \<open>on\<close> and \<open>off\<close>: left out, a function, or a value that is not a
  function (truthy or falsy).
\<close>

datatype callback_arg = Omitted | Function callback | NotFunction bool

text \<open>
  \<open>this.eventListeners\<close> starts as \<open>{}\<close>, an object that inherits from
  \<open>Object.prototype\<close>. The map \<open>eventListeners\<close> holds its own properties; reading
  \<open>this.eventListeners[tag]\<close> gives the own property when there is one, and otherwise,
  for a tag that names a property of \<open>Object.prototype\<close>, the inherited value: a
  function or an object, truthy and with no \<open>push\<close>, \<open>filter\<close> or \<open>forEach\<close>.
\<close>

definition inherited :: "string \<Rightarrow> bool" where
  "inherited tag =
     (tag \<in> set [''constructor'', ''hasOwnProperty'', ''isPrototypeOf'',
                 ''propertyIsEnumerable'', ''toLocaleString'', ''toString'', ''valueOf'',
                 ''__proto__'', ''__defineGetter__'', ''__defineSetter__'',
                 ''__lookupGetter__'', ''__lookupSetter__''])"

datatype slot = Missing | Inherited | Own "callback list"

definition read_slot :: "client \<Rightarrow> string \<Rightarrow> slot" where
  "read_slot c tag =
     (case eventListeners c tag of
        Some cbs \<Rightarrow> Own cbs
      | None \<Rightarrow> if inherited tag then Inherited else Missing)"

text \<open>The array registered under a tag, empty when the tag has none.\<close>

definition listeners :: "client \<Rightarrow> string \<Rightarrow> callback list" where
  "listeners c tag = (case eventListeners c tag of None \<Rightarrow> [] | Some cbs \<Rightarrow> cbs)"

definition on :: "client \<Rightarrow> env \<Rightarrow> string \<Rightarrow> callback_arg \<Rightarrow> (js_error + unit) \<times> client \<times> effect list" where
  "on c e ev cb =
     (case cb of
        Function f \<Rightarrow>
          (case read_slot c ev of
             Inherited \<Rightarrow>
               (Inl (TypeError ''this.eventListeners[event].push is not a function''), c, [])
           | s \<Rightarrow>
               (let c1 = c\<lparr>eventListeners := (eventListeners c)
                            (ev \<mapsto> (case s of Own cbs \<Rightarrow> cbs | _ \<Rightarrow> []) @ [f])\<rparr>
                in if enableWebSocket c1 \<and> socketIsEnabled e \<and> \<not> socket_connected c1 then
                     (case setupWebSocket c1 e of
                        (Rejected err, c2, effs) \<Rightarrow>
                          (Inr (), c2,
                           effs @ [ConsoleWarn (''Failed to setup WebSocket for event listener: '' @
                                                message err)])
                      | (r, c2, effs) \<Rightarrow> (Inr (), c2, effs))
                   else (Inr (), c1, [])))
      | _ \<Rightarrow> (Inl (Error ''Callback must be a function''), c, []))"

text \<open>
  \<open>off\<close>. \<open>delete\<close> of a property that is not the object's own does nothing; \<open>filter\<close>
  on an inherited value throws.
\<close>

definition off :: "client \<Rightarrow> string \<Rightarrow> callback_arg \<Rightarrow> js_error + client" where
  "off c ev cb =
     (case read_slot c ev of
        Missing \<Rightarrow> Inr c
      | Inherited \<Rightarrow>
          (case cb of
             Omitted \<Rightarrow> Inr c
           | NotFunction b \<Rightarrow>
               if \<not> b then Inr c
               else Inl (TypeError ''this.eventListeners[event].filter is not a function'')
           | Function f \<Rightarrow>
               Inl (TypeError ''this.eventListeners[event].filter is not a function''))
      | Own cbs \<Rightarrow>
          (case cb of
             Omitted \<Rightarrow> Inr (c\<lparr>eventListeners := (eventListeners c)(ev := None)\<rparr>)
           | NotFunction b \<Rightarrow>
               if \<not> b then Inr (c\<lparr>eventListeners := (eventListeners c)(ev := None)\<rparr>)
               else Inr (c\<lparr>eventListeners := (eventListeners c)(ev \<mapsto> cbs)\<rparr>)
           | Function f \<Rightarrow>
               Inr (c\<lparr>eventListeners := (eventListeners c)
                        (ev \<mapsto> filter (\<lambda>cb'. cb' \<noteq> f) cbs)\<rparr>)))"

text \<open>
  \<open>forEach\<close> over one array of listeners: each is called with the event, and what it
  throws is caught and logged. \<open>throws f ev\<close> says whether listener \<open>f\<close> throws on \<open>ev\<close>.
\<close>

fun call_listeners ::
  "(callback \<Rightarrow> event \<Rightarrow> bool) \<Rightarrow> string \<Rightarrow> event \<Rightarrow> callback list \<Rightarrow> effect list" where
  "call_listeners throws label ev [] = []"
| "call_listeners throws label ev (f # fs) =
     Invoke f ev # (if throws f ev then [ConsoleError label] else []) @
     call_listeners throws label ev fs"

text \<open>
  \<open>_dispatchEvent\<close>. The two look-ups and the two loops; \<open>forEach\<close> on an inherited
  value throws, outside the \<open>try\<close> of the loop body, and ends the dispatch.
\<close>

definition dispatchEvent ::
  "(callback \<Rightarrow> event \<Rightarrow> bool) \<Rightarrow> client \<Rightarrow> event \<Rightarrow> (js_error + unit) \<times> effect list" where
  "dispatchEvent throws c eventData =
     (let tag = or_default (eventType eventData) ''detection'' in
      case read_slot c tag of
        Inherited \<Rightarrow>
          (Inl (TypeError ''this.eventListeners[eventType].forEach is not a function''), [])
      | s \<Rightarrow>
          (let specific =
                 (case s of
                    Own cbs \<Rightarrow>
                      call_listeners throws (''Error in event listener for '' @ tag @ '':'')
                        eventData cbs
                  | _ \<Rightarrow> [])
           in case read_slot c ''all'' of
                Inherited \<Rightarrow>
                  (Inl (TypeError ''this.eventListeners.all.forEach is not a function''),
                   specific)
              | Missing \<Rightarrow> (Inr (), specific)
              | Own cbs \<Rightarrow>
                  (Inr (),
                   specific @
                   call_listeners throws
                     (''Error in '' @ [CHR 0x22] @ ''all'' @ [CHR 0x22] @ '' event listener:'')
                     eventData cbs)))"

text \<open>The calls of listeners in a run, each with its argument, in the order of the calls.\<close>

fun invoked :: "effect list \<Rightarrow> (callback \<times> event) list" where
  "invoked [] = []"
| "invoked (Invoke f ev # effs) = (f, ev) # invoked effs"
| "invoked (x # effs) = invoked effs"

subsection \<open>Scenarios\<close>

text \<open>
  \<open>k\<close> disconnects by the server in a row, each followed by the firing of the timer its
  handler set, with no \<open>connect\<close> from the socket in between.
\<close>

fun server_disconnects :: "nat \<Rightarrow> env \<Rightarrow> client \<Rightarrow> client \<times> effect list" where
  "server_disconnects 0 e c = (c, [])"
| "server_disconnects (Suc k) e c =
     (case on_disconnect c ''io server disconnect'' of
        (c1, effs1) \<Rightarrow>
          (case reconnect_timer c1 e of
             (c2, effs2) \<Rightarrow>
               (case server_disconnects k e c2 of
                  (c3, effs3) \<Rightarrow> (c3, effs1 @ effs2 @ effs3))))"

text \<open>
  A schedule of calls on one session: \<open>connect\<close> is called, the oldest pending \<open>connect\<close>
  runs to its end on the answers given, or \<open>disconnect\<close> is called. The state carries the
  client and the number of \<open>connect\<close> calls that passed the guard and have not ended.
\<close>

datatype call = CallConnect | EndConnect fetch_outcome "setup_event list" | CallDisconnect

fun run :: "env \<Rightarrow> call list \<Rightarrow> client \<times> nat \<Rightarrow> client \<times> nat" where
  "run e [] s = s"
| "run e (CallConnect # calls) (c, n) =
     (case connect_begin c of
        (Inl err, c1, effs) \<Rightarrow> run e calls (c1, n)
      | (Inr u, c1, effs) \<Rightarrow> run e calls (c1, Suc n))"
| "run e (EndConnect outcome evs # calls) (c, n) =
     (if n = 0 then run e calls (c, n)
      else
        (case connect_resume c e outcome evs of
           (None, c1, effs) \<Rightarrow> run e calls (c, n)
         | (Some res, c1, effs) \<Rightarrow> run e calls (c1, n - 1)))"
| "run e (CallDisconnect # calls) (c, n) = run e calls (fst (disconnect c), n)"

text \<open>
  A schedule in which \<open>disconnect\<close> is called only when no \<open>connect\<close> is in progress.
\<close>

fun disconnect_when_idle :: "env \<Rightarrow> call list \<Rightarrow> client \<times> nat \<Rightarrow> bool" where
  "disconnect_when_idle e [] s = True"
| "disconnect_when_idle e (CallDisconnect # calls) (c, n) =
     (n = 0 \<and> disconnect_when_idle e calls (run e [CallDisconnect] (c, n)))"
| "disconnect_when_idle e (x # calls) s = disconnect_when_idle e calls (run e [x] s)"

section \<open>The constructor\<close>

lemma new_client_no_options:
  "key \<noteq> [] \<Longrightarrow>
     new_client key \<lparr>opt_baseUrl = None, opt_timeout = None, opt_autoReconnect = None,
                     opt_enableWebSocket = None, opt_reconnectAttempts = None,
                     opt_reconnectDelay = None\<rparr> = Inr (initial_client key)"
  by (simp add: new_client_def initial_client_def or_default_def nat_or_default_def)

section \<open>Dispatch of an inbound event\<close>

lemma invoked_append: "invoked (xs @ ys) = invoked xs @ invoked ys"
  by (induction xs rule: invoked.induct) simp_all

lemma invoked_call_listeners:
  "invoked (call_listeners throws label ev fs) = map (\<lambda>f. (f, ev)) fs"
  by (induction fs) (simp_all add: invoked_append)

lemma call_listeners_concat:
  "call_listeners throws label ev fs =
     concat (map (\<lambda>f. Invoke f ev # (if throws f ev then [ConsoleError label] else [])) fs)"
  by (induction fs) simp_all

lemma inherited_all: "\<not> inherited ''all''"
  by (simp add: inherited_def)

lemma dispatchEvent_effects:
  "\<not> inherited (or_default (eventType ev) ''detection'') \<Longrightarrow>
     dispatchEvent throws c ev =
       (Inr (),
        call_listeners throws
          (''Error in event listener for '' @ or_default (eventType ev) ''detection'' @ '':'')
          ev (listeners c (or_default (eventType ev) ''detection'')) @
        call_listeners throws
          (''Error in '' @ [CHR 0x22] @ ''all'' @ [CHR 0x22] @ '' event listener:'')
          ev (listeners c ''all''))"
  by (simp add: dispatchEvent_def read_slot_def listeners_def Let_def inherited_all
      split: option.splits)

text \<open>
  C1, as the code has it, for an event whose tag names no property of
  \<open>Object.prototype\<close>; the tag is \<open>eventType\<close>, or \<open>detection\<close> when \<open>eventType\<close> is
  absent or empty. \<open>_dispatchEvent\<close> does not throw. What it does is, for each listener
  registered under the tag and then for each registered under \<open>all\<close>, in registration
  order: call the listener with the event itself and, when that call throws, log the
  error; then go on with the next listener. So the calls are those listeners in that
  order, and a listener is called once for each of its registrations under the tag plus
  once for each under \<open>all\<close>.
\<close>

theorem dispatchEvent_invokes:
  assumes "\<not> inherited (or_default (eventType ev) ''detection'')"
  shows "fst (dispatchEvent throws c ev) = Inr ()
   \<and> snd (dispatchEvent throws c ev) =
       concat (map (\<lambda>f. Invoke f ev #
                 (if throws f ev then
                    [ConsoleError (''Error in event listener for '' @
                                   or_default (eventType ev) ''detection'' @ '':'')]
                  else []))
               (listeners c (or_default (eventType ev) ''detection''))) @
       concat (map (\<lambda>f. Invoke f ev #
                 (if throws f ev then
                    [ConsoleError (''Error in '' @ [CHR 0x22] @ ''all'' @ [CHR 0x22] @
                                   '' event listener:'')]
                  else []))
               (listeners c ''all''))
   \<and> invoked (snd (dispatchEvent throws c ev)) =
       map (\<lambda>f. (f, ev))
         (listeners c (or_default (eventType ev) ''detection'') @ listeners c ''all'')
   \<and> count_list (map fst (invoked (snd (dispatchEvent throws c ev)))) f =
       count_list (listeners c (or_default (eventType ev) ''detection'')) f +
       count_list (listeners c ''all'') f"
proof -
  note eff = dispatchEvent_effects [OF assms, of throws c]
  have res: "fst (dispatchEvent throws c ev) = Inr ()"
    unfolding eff by simp
  have effs: "snd (dispatchEvent throws c ev) =
       concat (map (\<lambda>f. Invoke f ev #
                 (if throws f ev then
                    [ConsoleError (''Error in event listener for '' @
                                   or_default (eventType ev) ''detection'' @ '':'')]
                  else []))
               (listeners c (or_default (eventType ev) ''detection''))) @
       concat (map (\<lambda>f. Invoke f ev #
                 (if throws f ev then
                    [ConsoleError (''Error in '' @ [CHR 0x22] @ ''all'' @ [CHR 0x22] @
                                   '' event listener:'')]
                  else []))
               (listeners c ''all''))"
    unfolding eff call_listeners_concat by (simp only: snd_conv)
  have inv: "invoked (snd (dispatchEvent throws c ev)) =
       map (\<lambda>f. (f, ev))
         (listeners c (or_default (eventType ev) ''detection'') @ listeners c ''all'')"
    unfolding eff by (simp add: invoked_append invoked_call_listeners)
  have "map fst (invoked (snd (dispatchEvent throws c ev))) =
      listeners c (or_default (eventType ev) ''detection'') @ listeners c ''all''"
    unfolding inv by (simp add: comp_def)
  then have cnt: "count_list (map fst (invoked (snd (dispatchEvent throws c ev)))) f =
       count_list (listeners c (or_default (eventType ev) ''detection'')) f +
       count_list (listeners c ''all'') f"
    by simp
  from res effs inv cnt show ?thesis by (intro conjI)
qed

text \<open>
  C1, as stated, fails for an event whose \<open>eventType\<close> is \<open>all\<close>: the one listener
  registered (once, under \<open>all\<close>) is called twice.
\<close>

theorem dispatchEvent_all_twice:
  "map fst (invoked (snd (dispatchEvent (\<lambda>f ev. False)
      ((initial_client ''k1'')\<lparr>eventListeners := [''all'' \<mapsto> [7]]\<rparr>)
      \<lparr>eventType = Some ''all'', data = ''x''\<rparr>))) = [7, 7]
   \<and> listeners ((initial_client ''k1'')\<lparr>eventListeners := [''all'' \<mapsto> [7]]\<rparr>) ''all'' = [7]"
  by (simp add: dispatchEvent_def read_slot_def listeners_def initial_client_def
      or_default_def Let_def)

text \<open>
  The theorem at an event with no \<open>eventType\<close>, on a session with listeners 1, 2, 3
  under \<open>detection\<close> and 7 under \<open>all\<close>, where listener 2 throws: 1, 2, 3 and 7 are
  called, and the error of 2 is logged between the calls of 2 and 3.
\<close>

theorem dispatchEvent_invokes_witness:
  "\<not> inherited (or_default (eventType \<lparr>eventType = None, data = ''x''\<rparr>) ''detection'')
   \<and> dispatchEvent (\<lambda>f ev. f = 2)
        ((initial_client ''k1'')
           \<lparr>eventListeners := [''detection'' \<mapsto> [1, 2, 3], ''all'' \<mapsto> [7]]\<rparr>)
        \<lparr>eventType = None, data = ''x''\<rparr> =
      (Inr (),
       [Invoke 1 \<lparr>eventType = None, data = ''x''\<rparr>,
        Invoke 2 \<lparr>eventType = None, data = ''x''\<rparr>,
        ConsoleError ''Error in event listener for detection:'',
        Invoke 3 \<lparr>eventType = None, data = ''x''\<rparr>,
        Invoke 7 \<lparr>eventType = None, data = ''x''\<rparr>])"
proof -
  have tag: "\<not> inherited (or_default (eventType \<lparr>eventType = None, data = ''x''\<rparr>) ''detection'')"
    by (simp add: or_default_def inherited_def)
  show ?thesis
    using tag dispatchEvent_invokes [OF tag, of "\<lambda>f ev. f = 2"
        "(initial_client ''k1'')
           \<lparr>eventListeners := [''detection'' \<mapsto> [1, 2, 3], ''all'' \<mapsto> [7]]\<rparr>" 0]
    by (simp add: prod_eq_iff listeners_def or_default_def initial_client_def)
qed

section \<open>The listener table: \<open>on\<close> and \<open>off\<close>\<close>

lemma eventListeners_open_socket:
  "eventListeners (fst (snd (open_socket c e))) = eventListeners c"
  by (simp add: open_socket_def Let_def split: option.splits)

lemma eventListeners_setupWebSocket:
  "eventListeners (fst (snd (setupWebSocket c e))) = eventListeners c"
  using eventListeners_open_socket [of c e]
  by (auto simp add: setupWebSocket_def split: io_source.splits prod.splits)

lemma read_slot_ordinary:
  "\<not> inherited tag \<Longrightarrow>
     read_slot c tag = (case eventListeners c tag of None \<Rightarrow> Missing | Some cbs \<Rightarrow> Own cbs)"
  by (simp add: read_slot_def split: option.splits)

lemma eventListeners_on:
  assumes "\<not> inherited tag"
  shows "eventListeners (fst (snd (on c e tag (Function f)))) =
     (eventListeners c)(tag \<mapsto> listeners c tag @ [f])"
proof -
  let ?c1 = "c\<lparr>eventListeners := (eventListeners c)(tag \<mapsto> listeners c tag @ [f])\<rparr>"
  have "eventListeners (fst (snd (setupWebSocket ?c1 e))) = eventListeners ?c1"
    by (rule eventListeners_setupWebSocket)
  then show ?thesis
    using assms
    by (auto simp add: on_def Let_def listeners_def read_slot_def
        split: prod.splits settle.splits option.splits)
qed

lemma on_result: "\<not> inherited tag \<Longrightarrow> fst (on c e tag (Function f)) = Inr ()"
  by (simp add: on_def Let_def read_slot_def split: prod.splits settle.splits option.splits)

lemma listeners_on_same:
  "\<not> inherited tag \<Longrightarrow>
     listeners (fst (snd (on c e tag (Function f)))) tag = listeners c tag @ [f]"
  by (simp add: listeners_def [of "fst (snd (on c e tag (Function f)))"] eventListeners_on)

lemma listeners_on_other:
  "\<not> inherited tag \<Longrightarrow> t \<noteq> tag \<Longrightarrow>
     listeners (fst (snd (on c e tag (Function f)))) t = listeners c t"
  by (simp add: listeners_def eventListeners_on)

lemma count_on_times:
  "\<not> inherited tag \<Longrightarrow>
     count_list (listeners (((\<lambda>c. fst (snd (on c e tag (Function f)))) ^^ k) c) tag) f =
       count_list (listeners c tag) f + k"
  by (induction k) (simp_all add: listeners_on_same)

lemma off_function:
  "\<not> inherited tag \<Longrightarrow>
     \<exists>c'. off c tag (Function f) = Inr c'
        \<and> listeners c' tag = filter (\<lambda>g. g \<noteq> f) (listeners c tag)
        \<and> (\<forall>t. t \<noteq> tag \<longrightarrow> listeners c' t = listeners c t)"
  by (simp add: off_def listeners_def read_slot_def split: option.splits)

lemma off_omitted:
  "\<not> inherited tag \<Longrightarrow>
     \<exists>c'. off c tag Omitted = Inr c' \<and> eventListeners c' tag = None \<and> listeners c' tag = []
        \<and> (\<forall>t. t \<noteq> tag \<longrightarrow> listeners c' t = listeners c t)"
  by (simp add: off_def listeners_def read_slot_def split: option.splits)

lemma off_absent: "\<not> inherited tag \<Longrightarrow> eventListeners c tag = None \<Longrightarrow> off c tag a = Inr c"
  by (simp add: off_def read_slot_def)

lemma off_empty:
  "\<not> inherited tag \<Longrightarrow> listeners c tag = [] \<Longrightarrow>
     \<exists>c'. off c tag a = Inr c' \<and> (\<forall>t. listeners c' t = listeners c t)"
  by (auto simp add: off_def listeners_def read_slot_def split: option.splits callback_arg.splits)

text \<open>
  What C8 says holds for every tag that names no property of \<open>Object.prototype\<close>.
  \<open>on\<close> with a function appends it to the array of its tag and leaves the other tags
  alone, so that registering \<open>f\<close> \<open>k\<close> more times adds \<open>k\<close> occurrences of \<open>f\<close>. \<open>off\<close> with
  a function \<open>f\<close> keeps of the tag's array exactly the entries other than \<open>f\<close>, in their
  order; \<open>off\<close> with no function deletes the tag; \<open>off\<close> never touches another tag, and
  on a tag with no entry it changes nothing.
\<close>

lemma listener_table_on_off:
  assumes "\<not> inherited tag"
  shows "fst (on c e tag (Function f)) = Inr ()
   \<and> listeners (fst (snd (on c e tag (Function f)))) tag = listeners c tag @ [f]
   \<and> (t \<noteq> tag \<longrightarrow> listeners (fst (snd (on c e tag (Function f)))) t = listeners c t)
   \<and> count_list (listeners (((\<lambda>c. fst (snd (on c e tag (Function f)))) ^^ k) c) tag) f =
       count_list (listeners c tag) f + k
   \<and> (\<exists>c'. off c tag (Function f) = Inr c'
         \<and> listeners c' tag = filter (\<lambda>g. g \<noteq> f) (listeners c tag)
         \<and> f \<notin> set (listeners c' tag)
         \<and> subseq (listeners c' tag) (listeners c tag)
         \<and> (g \<noteq> f \<longrightarrow> count_list (listeners c' tag) g = count_list (listeners c tag) g)
         \<and> (t \<noteq> tag \<longrightarrow> listeners c' t = listeners c t))
   \<and> (\<exists>c'. off c tag Omitted = Inr c' \<and> eventListeners c' tag = None
         \<and> listeners c' tag = [] \<and> (t \<noteq> tag \<longrightarrow> listeners c' t = listeners c t))
   \<and> (eventListeners c tag = None \<longrightarrow> off c tag a = Inr c)
   \<and> (listeners c tag = [] \<longrightarrow>
        (\<exists>c'. off c tag a = Inr c' \<and> listeners c' t = listeners c t))"
proof -
  have cnt: "g \<noteq> f \<Longrightarrow> count_list (filter (\<lambda>g. g \<noteq> f) xs) g = count_list xs g" for xs
    by (induction xs) simp_all
  obtain c1 where c1: "off c tag (Function f) = Inr c1"
      "listeners c1 tag = filter (\<lambda>g. g \<noteq> f) (listeners c tag)"
      "\<forall>t. t \<noteq> tag \<longrightarrow> listeners c1 t = listeners c t"
    using off_function [OF assms, of c f] by blast
  obtain c2 where c2: "off c tag Omitted = Inr c2" "eventListeners c2 tag = None"
      "listeners c2 tag = []" "\<forall>t. t \<noteq> tag \<longrightarrow> listeners c2 t = listeners c t"
    using off_omitted [OF assms, of c] by blast
  have empty: "listeners c tag = [] \<Longrightarrow>
      \<exists>c'. off c tag a = Inr c' \<and> listeners c' t = listeners c t"
    using off_empty [OF assms, of c a] by blast
  show ?thesis
    using c1 c2 empty assms
    by (simp add: on_result listeners_on_same listeners_on_other count_on_times off_absent cnt)
qed

text \<open>
  C8 fails for a tag that names a property of \<open>Object.prototype\<close>. On a fresh session,
  \<open>on\<close> with the tag \<open>toString\<close> and a function throws a TypeError and registers
  nothing, and \<open>off\<close> with that tag and a function throws as well.
\<close>

theorem on_inherited_tag_throws:
  "on (initial_client ''k1'') \<lparr>io_source = BrowserIO, io_throws = None, now = ''t''\<rparr>
      ''toString'' (Function 1) =
     (Inl (TypeError ''this.eventListeners[event].push is not a function''),
      initial_client ''k1'', [])
   \<and> listeners (initial_client ''k1'') ''toString'' = []
   \<and> off (initial_client ''k1'') ''toString'' (Function 1) =
       Inl (TypeError ''this.eventListeners[event].filter is not a function'')"
  by (simp add: on_def off_def read_slot_def inherited_def listeners_def initial_client_def)

section \<open>\<open>disconnect\<close>\<close>

lemma eventListeners_await_setup:
  "eventListeners (fst (snd (await_setup c evs))) = eventListeners c"
  by (induction c evs rule: await_setup.induct) (simp_all add: on_connect_def split_beta)

lemma eventListeners_await_setupWebSocket:
  "eventListeners (fst (snd (await_setupWebSocket c e evs))) = eventListeners c"
  using eventListeners_setupWebSocket [of c e]
    eventListeners_await_setup [of "fst (snd (setupWebSocket c e))" evs]
  by (cases "fst (setupWebSocket c e)") (simp_all add: await_setupWebSocket_def split_beta)

lemma eventListeners_reconnect_timer:
  "eventListeners (fst (reconnect_timer c e)) = eventListeners c"
  using eventListeners_setupWebSocket [of "c\<lparr>reconnectCount := reconnectCount c + 1\<rparr>" e]
  by (simp add: reconnect_timer_def Let_def split_beta)

lemma eventListeners_on_disconnect:
  "eventListeners (fst (on_disconnect c reason)) = eventListeners c"
  by (simp add: on_disconnect_def)

lemma eventListeners_server_disconnects:
  "eventListeners (fst (server_disconnects k e c)) = eventListeners c"
proof (induction k arbitrary: c)
  case 0
  then show ?case by simp
next
  case (Suc k)
  show ?case
    using Suc [of "fst (reconnect_timer (fst (on_disconnect c ''io server disconnect'')) e)"]
    by (simp add: split_beta eventListeners_reconnect_timer eventListeners_on_disconnect)
qed

lemma eventListeners_retry:
  "eventListeners (fst (snd (retryWebSocketConnection c e evs))) = eventListeners c"
  using eventListeners_await_setupWebSocket [of c e evs]
  by (cases "fst (await_setupWebSocket c e evs)")
     (simp_all add: retryWebSocketConnection_def split_beta)

lemma eventListeners_request_receive:
  "eventListeners (fst (snd (request_receive c path outcome))) = eventListeners c"
  by (simp add: request_receive_def Let_def
      split: fetch_outcome.splits body.splits sum.splits)

lemma eventListeners_connect_resume:
  "eventListeners (fst (snd (connect_resume c e outcome evs))) = eventListeners c"
proof -
  have rr: "request_receive c ''/auth/validate'' outcome = (r, c1, effs) \<Longrightarrow>
      eventListeners c1 = eventListeners c" for r c1 effs
    using eventListeners_request_receive [of c "''/auth/validate''" outcome] by simp
  have aw: "await_setupWebSocket c2 e evs = (r, c3, effs) \<Longrightarrow>
      eventListeners c3 = eventListeners c2" for c2 r c3 effs
    using eventListeners_await_setupWebSocket [of c2 e evs] by simp
  show ?thesis
    by (auto simp add: connect_resume_def connect_done_def connect_failed_def Let_def
        dest!: rr aw split: prod.splits sum.splits settle.splits)
qed

lemma eventListeners_connect:
  "eventListeners (fst (snd (connect c e outcome evs))) = eventListeners c"
  using eventListeners_connect_resume [of "c\<lparr>isConnecting := True\<rparr>" e outcome evs]
  by (simp add: connect_def connect_begin_def Let_def split_beta)

text \<open>
  C3, as the code has it. From any state, \<open>disconnect\<close> closes the socket if there is
  one, empties the watch registry, resets the reconnect counter and clears both
  \<open>isConnected\<close> and \<open>isConnecting\<close>; it leaves the listener table as it was. A second
  \<open>disconnect\<close> changes nothing and closes nothing. Nor is the listener table changed
  on a reconnect: not by the handlers of the socket's \<open>disconnect\<close> and \<open>connect\<close>, not
  by the reconnect timer or any number of automatic reconnects, not by the wait for a
  stream setup, the manual retry, or a new \<open>connect\<close>.
\<close>

theorem disconnect_effect:
  "snd (disconnect c) = (if socket c = None then [] else [SocketDisconnect])
   \<and> socket (fst (disconnect c)) = None
   \<and> activeWatchers (fst (disconnect c)) = Map.empty
   \<and> reconnectCount (fst (disconnect c)) = 0
   \<and> \<not> isConnected (fst (disconnect c))
   \<and> \<not> isConnecting (fst (disconnect c))
   \<and> eventListeners (fst (disconnect c)) = eventListeners c
   \<and> disconnect (fst (disconnect c)) = (fst (disconnect c), [])
   \<and> eventListeners (fst (on_disconnect c reason)) = eventListeners c
   \<and> eventListeners (fst (reconnect_timer c e)) = eventListeners c
   \<and> eventListeners (fst (on_connect c)) = eventListeners c
   \<and> eventListeners (fst (server_disconnects k e c)) = eventListeners c
   \<and> eventListeners (fst (snd (await_setupWebSocket c e evs))) = eventListeners c
   \<and> eventListeners (fst (snd (retryWebSocketConnection c e evs))) = eventListeners c
   \<and> eventListeners (fst (snd (connect c e outcome evs))) = eventListeners c"
proof -
  have dis: "snd (disconnect c) = (if socket c = None then [] else [SocketDisconnect])
   \<and> socket (fst (disconnect c)) = None
   \<and> activeWatchers (fst (disconnect c)) = Map.empty
   \<and> reconnectCount (fst (disconnect c)) = 0
   \<and> \<not> isConnected (fst (disconnect c))
   \<and> \<not> isConnecting (fst (disconnect c))
   \<and> eventListeners (fst (disconnect c)) = eventListeners c
   \<and> disconnect (fst (disconnect c)) = (fst (disconnect c), [])"
    by (cases "socket c") (simp_all add: disconnect_def)
  have co: "eventListeners (fst (on_connect c)) = eventListeners c"
    by (simp add: on_connect_def)
  show ?thesis
    using dis co
    by (simp add: eventListeners_on_disconnect eventListeners_reconnect_timer
        eventListeners_server_disconnects eventListeners_await_setupWebSocket
        eventListeners_retry eventListeners_connect)
qed

text \<open>
  C3, as stated, fails: a listener registered under \<open>detection\<close> is still registered
  after \<open>disconnect\<close>, and an event dispatched then still reaches it.
\<close>

theorem disconnect_keeps_listeners:
  "eventListeners
     (fst (disconnect ((initial_client ''k1'')\<lparr>eventListeners := [''detection'' \<mapsto> [1]]\<rparr>)))
     ''detection'' = Some [1]
   \<and> invoked (snd (dispatchEvent (\<lambda>f ev. False)
        (fst (disconnect ((initial_client ''k1'')\<lparr>eventListeners := [''detection'' \<mapsto> [1]]\<rparr>)))
        \<lparr>eventType = None, data = ''x''\<rparr>)) = [(1, \<lparr>eventType = None, data = ''x''\<rparr>)]"
  by (simp add: disconnect_def initial_client_def dispatchEvent_def read_slot_def
      or_default_def inherited_def Let_def)

text \<open>
  The theorem at a connected session with a connected socket, a reconnect counter at 2
  and a listener under \<open>detection\<close>: \<open>disconnect\<close> closes the socket and resets the
  rest, a second \<open>disconnect\<close> does nothing, and the listener is still there after
  \<open>disconnect\<close>, after three automatic reconnects, after a manual retry and after a new
  \<open>connect\<close>.
\<close>

theorem disconnect_effect_witness:
  "snd (disconnect ((initial_client ''k1'')
         \<lparr>eventListeners := [''detection'' \<mapsto> [1]], socket := Some \<lparr>connected = True\<rparr>,
          isConnected := True, reconnectCount := 2\<rparr>)) = [SocketDisconnect]
   \<and> fst (disconnect ((initial_client ''k1'')
         \<lparr>eventListeners := [''detection'' \<mapsto> [1]], socket := Some \<lparr>connected = True\<rparr>,
          isConnected := True, reconnectCount := 2\<rparr>)) =
       (initial_client ''k1'')\<lparr>eventListeners := [''detection'' \<mapsto> [1]]\<rparr>
   \<and> disconnect ((initial_client ''k1'')\<lparr>eventListeners := [''detection'' \<mapsto> [1]]\<rparr>) =
       ((initial_client ''k1'')\<lparr>eventListeners := [''detection'' \<mapsto> [1]]\<rparr>, [])
   \<and> eventListeners (fst (server_disconnects 3
         \<lparr>io_source = BrowserIO, io_throws = None, now = ''t''\<rparr>
         ((initial_client ''k1'')\<lparr>eventListeners := [''detection'' \<mapsto> [1]]\<rparr>))) =
       [''detection'' \<mapsto> [1]]
   \<and> eventListeners (fst (snd (retryWebSocketConnection
         ((initial_client ''k1'')\<lparr>eventListeners := [''detection'' \<mapsto> [1]]\<rparr>)
         \<lparr>io_source = BrowserIO, io_throws = None, now = ''t''\<rparr> [EvConnect]))) =
       [''detection'' \<mapsto> [1]]
   \<and> eventListeners (fst (snd (connect
         ((initial_client ''k1'')\<lparr>eventListeners := [''detection'' \<mapsto> [1]]\<rparr>)
         \<lparr>io_source = BrowserIO, io_throws = None, now = ''t''\<rparr>
         (FetchRejects ''down'') []))) =
       [''detection'' \<mapsto> [1]]"
proof -
  have first: "fst (disconnect ((initial_client ''k1'')
         \<lparr>eventListeners := [''detection'' \<mapsto> [1]], socket := Some \<lparr>connected = True\<rparr>,
          isConnected := True, reconnectCount := 2\<rparr>)) =
       (initial_client ''k1'')\<lparr>eventListeners := [''detection'' \<mapsto> [1]]\<rparr>"
    by (simp add: disconnect_def initial_client_def)
  show ?thesis
    using disconnect_effect [where c = "(initial_client ''k1'')
         \<lparr>eventListeners := [''detection'' \<mapsto> [1]], socket := Some \<lparr>connected = True\<rparr>,
          isConnected := True, reconnectCount := 2\<rparr>"
        and e = "\<lparr>io_source = BrowserIO, io_throws = None, now = ''t''\<rparr>"
        and k = 0 and evs = "[]" and outcome = "FetchRejects ''down''" and reason = "''x''"]
      disconnect_effect [where c = "(initial_client ''k1'')\<lparr>eventListeners := [''detection'' \<mapsto> [1]]\<rparr>"
        and e = "\<lparr>io_source = BrowserIO, io_throws = None, now = ''t''\<rparr>"
        and k = 3 and evs = "[EvConnect]" and outcome = "FetchRejects ''down''"
        and reason = "''x''"]
      disconnect_effect [where c = "(initial_client ''k1'')\<lparr>eventListeners := [''detection'' \<mapsto> [1]]\<rparr>"
        and e = "\<lparr>io_source = BrowserIO, io_throws = None, now = ''t''\<rparr>"
        and k = 3 and evs = "[]" and outcome = "FetchRejects ''down''"
        and reason = "''x''"]
      first
    by simp
qed

section \<open>The rate-limit snapshot\<close>

lemma rateLimit_request_receive:
  "rateLimit (fst (snd (request_receive c path (FetchResponse r)))) =
     track_rate_limits r (rateLimit c)"
  by (simp add: request_receive_def Let_def split: body.splits sum.splits)

lemma request_receive_not_ok:
  "\<not> ok r \<Longrightarrow> \<exists>err. fst (request_receive c path (FetchResponse r)) = Inl err"
  by (simp add: request_receive_def Let_def split: body.splits sum.splits)

text \<open>
  C10. Whatever the status of the response, after \<open>_request\<close> each field of the
  snapshot holds what \<open>parseInt\<close> reads in its header when the header is there, and its
  old value when it is not; and a response that is not ok makes \<open>_request\<close> throw, the
  snapshot being updated all the same.
\<close>

theorem request_tracks_rate_limits:
  "limit (rateLimit (fst (snd (request c meth path dat (FetchResponse r))))) =
     (case headers r ''X-RateLimit-Limit'' of
        None \<Rightarrow> limit (rateLimit c) | Some v \<Rightarrow> parseInt v)
   \<and> remaining (rateLimit (fst (snd (request c meth path dat (FetchResponse r))))) =
     (case headers r ''X-RateLimit-Remaining'' of
        None \<Rightarrow> remaining (rateLimit c) | Some v \<Rightarrow> parseInt v)
   \<and> reset (rateLimit (fst (snd (request c meth path dat (FetchResponse r))))) =
     (case headers r ''X-RateLimit-Reset'' of
        None \<Rightarrow> reset (rateLimit c) | Some v \<Rightarrow> parseInt v)
   \<and> (\<not> ok r \<longrightarrow> (\<exists>err. fst (request c meth path dat (FetchResponse r)) = Inl err))"
proof -
  have rl: "rateLimit (fst (snd (request c meth path dat (FetchResponse r)))) =
      track_rate_limits r (rateLimit c)"
    by (simp add: request_def split_beta rateLimit_request_receive)
  have err: "\<not> ok r \<Longrightarrow> \<exists>err. fst (request c meth path dat (FetchResponse r)) = Inl err"
    using request_receive_not_ok [of r c path]
    by (simp add: request_def split_beta)
  show ?thesis
    unfolding rl using err
    by (simp add: track_rate_limits_def Let_def split: option.splits)
qed

lemma parseInt_100: "parseInt ''100'' = Num 100"
  by (simp add: parseInt_def is_space_def is_digit_def digits_val_def digit_val_def Let_def)

lemma parseInt_0: "parseInt ''0'' = Num 0"
  by (simp add: parseInt_def is_space_def is_digit_def digits_val_def digit_val_def Let_def)

text \<open>
  The theorem at a 429 response that carries the limit and the remaining count but no
  reset time, on a fresh session: the two fields are updated, the third keeps its 0, and
  the request fails.
\<close>

theorem request_tracks_rate_limits_witness:
  "\<not> ok \<lparr>status = 429, statusText = ''Too Many Requests'',
          headers = [''X-RateLimit-Limit'' \<mapsto> ''100'', ''X-RateLimit-Remaining'' \<mapsto> ''0''],
          body = Unparseable ''Unexpected token''\<rparr>
   \<and> rateLimit (fst (snd (request (initial_client ''k1'') ''GET'' ''/events'' None
        (FetchResponse \<lparr>status = 429, statusText = ''Too Many Requests'',
          headers = [''X-RateLimit-Limit'' \<mapsto> ''100'', ''X-RateLimit-Remaining'' \<mapsto> ''0''],
          body = Unparseable ''Unexpected token''\<rparr>)))) =
       \<lparr>limit = Num 100, remaining = Num 0, reset = Num 0\<rparr>
   \<and> (\<exists>err. fst (request (initial_client ''k1'') ''GET'' ''/events'' None
        (FetchResponse \<lparr>status = 429, statusText = ''Too Many Requests'',
          headers = [''X-RateLimit-Limit'' \<mapsto> ''100'', ''X-RateLimit-Remaining'' \<mapsto> ''0''],
          body = Unparseable ''Unexpected token''\<rparr>)) = Inl err)"
  using request_tracks_rate_limits [where c = "initial_client ''k1''" and meth = "''GET''"
      and path = "''/events''" and dat = None
      and r = "\<lparr>status = 429, statusText = ''Too Many Requests'',
          headers = [''X-RateLimit-Limit'' \<mapsto> ''100'', ''X-RateLimit-Remaining'' \<mapsto> ''0''],
          body = Unparseable ''Unexpected token''\<rparr>"]
  by (simp add: ok_def parseInt_100 parseInt_0 initial_client_def rate_limit.equality)

section \<open>\<open>watch\<close> without a webhook URL\<close>

text \<open>
  C5. On a connected session whose stream is not connected, \<open>watch\<close> with a device id
  and no notification settings chooses the endpoint \<open>/devices/watch\<close>, defaults the
  method to \<open>webhook\<close>, and throws before \<open>_request\<close> is called: nothing is sent and the
  session, its watch registry included, is as before.
\<close>

theorem watch_device_without_webhook:
  assumes "isConnected c" and "\<not> socket_connected c"
    and "\<not> truthy (streamUrl opts)" and "deviceId opts = Some d" and "d \<noteq> []"
    and "notificationSettings opts = None"
  shows "watch_build c e opts =
           (''/devices/watch'',
            Payload (DeviceTarget (Some d))
              (case detectionSettings opts of None \<Rightarrow> ''{}'' | Some s \<Rightarrow> s)
              \<lparr>notifyMethod = Some ''webhook'', webhookUrl = None\<rparr>)
         \<and> watch c e opts outcome =
           (Inl (Error ''webhookUrl is required for webhook notifications''), c, [])"
proof -
  have build: "watch_build c e opts =
           (''/devices/watch'',
            Payload (DeviceTarget (Some d))
              (case detectionSettings opts of None \<Rightarrow> ''{}'' | Some s \<Rightarrow> s)
              \<lparr>notifyMethod = Some ''webhook'', webhookUrl = None\<rparr>)"
    using assms by (simp add: watch_build_def Let_def)
  have "watch_prepare c e opts =
      Inl (Error ''webhookUrl is required for webhook notifications'')"
    using assms by (simp add: watch_prepare_def ensureConnected_def build)
  then show ?thesis using build by (simp add: watch_def)
qed

text \<open>The theorem at \<open>watch({deviceId: "d1"})\<close> on a session that is connected over HTTP only.\<close>

theorem watch_device_without_webhook_witness:
  "isConnected ((initial_client ''k1'')\<lparr>isConnected := True\<rparr>)
   \<and> \<not> socket_connected ((initial_client ''k1'')\<lparr>isConnected := True\<rparr>)
   \<and> watch ((initial_client ''k1'')\<lparr>isConnected := True\<rparr>)
        \<lparr>io_source = BrowserIO, io_throws = None, now = ''t''\<rparr>
        \<lparr>streamUrl = None, deviceId = Some ''d1'', businessId = None, name = None,
         detectionSettings = None, notificationSettings = None\<rparr>
        (FetchRejects ''unused'') =
       (Inl (Error ''webhookUrl is required for webhook notifications''),
        (initial_client ''k1'')\<lparr>isConnected := True\<rparr>, [])"
  using watch_device_without_webhook [where c = "(initial_client ''k1'')\<lparr>isConnected := True\<rparr>"
      and e = "\<lparr>io_source = BrowserIO, io_throws = None, now = ''t''\<rparr>"
      and opts = "\<lparr>streamUrl = None, deviceId = Some ''d1'', businessId = None, name = None,
         detectionSettings = None, notificationSettings = None\<rparr>"
      and d = "''d1''" and outcome = "FetchRejects ''unused''"]
  by (simp add: initial_client_def socket_connected_def)

section \<open>\<open>connect\<close>\<close>

lemma isConnecting_open_socket:
  "isConnecting (fst (snd (open_socket c e))) = isConnecting c"
  by (simp add: open_socket_def Let_def split: option.splits)

lemma isConnecting_setupWebSocket:
  "isConnecting (fst (snd (setupWebSocket c e))) = isConnecting c"
  by (simp add: setupWebSocket_def split_beta isConnecting_open_socket split: io_source.splits)

lemma isConnecting_await_setup:
  "isConnecting (fst (snd (await_setup c evs))) = isConnecting c"
  by (induction c evs rule: await_setup.induct) (simp_all add: on_connect_def split_beta)

lemma connect_resume_ends:
  "fst (connect_resume c e outcome evs) \<noteq> None \<Longrightarrow>
     \<not> isConnecting (fst (snd (connect_resume c e outcome evs)))"
  by (auto simp add: connect_resume_def connect_done_def connect_failed_def Let_def
      split: prod.splits sum.splits settle.splits)

lemma connect_in_progress_rejected:
  "isConnecting c \<Longrightarrow>
     connect c e outcome evs = (Some (Inl (Error ''Connection already in progress'')), c, [])"
  by (simp add: connect_def connect_begin_def)

lemma connect_fresh:
  "\<not> isConnecting c \<Longrightarrow>
     fst (connect c e outcome evs) = fst (connect_resume (c\<lparr>isConnecting := True\<rparr>) e outcome evs)
     \<and> fst (snd (connect c e outcome evs)) =
         fst (snd (connect_resume (c\<lparr>isConnecting := True\<rparr>) e outcome evs))"
  by (simp add: connect_def connect_begin_def Let_def split_beta)

subsection \<open>The stream setup settles when its timeout fires\<close>

lemma await_setup_settles:
  "\<not> socket_connected c \<Longrightarrow> EvTimeout \<in> set evs \<Longrightarrow> fst (await_setup c evs) \<noteq> Pending"
  by (induction c evs rule: await_setup.induct) (auto simp add: split_beta)

lemma open_socket_pending:
  "fst (open_socket c e) = Pending \<Longrightarrow> \<not> socket_connected (fst (snd (open_socket c e)))"
  by (simp add: open_socket_def Let_def socket_connected_def split: option.splits)

lemma setupWebSocket_pending:
  "fst (setupWebSocket c e) = Pending \<Longrightarrow> \<not> socket_connected (fst (snd (setupWebSocket c e)))"
  using open_socket_pending [of c e]
  by (auto simp add: setupWebSocket_def split_beta split: io_source.splits if_splits)

lemma await_setupWebSocket_settles:
  "EvTimeout \<in> set evs \<Longrightarrow> fst (await_setupWebSocket c e evs) \<noteq> Pending"
proof (cases "setupWebSocket c e")
  case (fields r c1 effs)
  assume t: "EvTimeout \<in> set evs"
  show ?thesis
  proof (cases r)
    case Pending
    then have "\<not> socket_connected c1"
      using fields setupWebSocket_pending [of c e] by simp
    then show ?thesis
      using fields Pending t await_setup_settles [of c1 evs]
      by (simp add: await_setupWebSocket_def split_beta)
  qed (use fields in \<open>simp_all add: await_setupWebSocket_def\<close>)
qed

lemma connect_resume_settles:
  assumes "EvTimeout \<in> set evs"
  shows "fst (connect_resume c e outcome evs) \<noteq> None"
proof -
  have "await_setupWebSocket c' e evs \<noteq> (Pending, c'', effs)" for c' c'' effs
    using await_setupWebSocket_settles [OF assms, of c' e] by auto
  then show ?thesis
    by (auto simp add: connect_resume_def connect_done_def connect_failed_def Let_def
        split: prod.splits sum.splits settle.splits)
qed

subsection \<open>The \<open>isConnecting\<close> flag\<close>

text \<open>
  C9, as the code has it. Once the answer of the validation request is in and the
  connection timeout has fired, \<open>connect\<close> has ended. A call that found \<open>isConnecting\<close>
  clear leaves it clear when it ends, resolved or rejected, and the next \<open>connect\<close>
  passes the guard. A call that found \<open>isConnecting\<close> set is rejected by the guard and
  changes nothing: the flag stays set.
\<close>

theorem connect_clears_isConnecting:
  "(EvTimeout \<in> set evs \<longrightarrow> fst (connect c e outcome evs) \<noteq> None)
   \<and> (\<not> isConnecting c \<and> fst (connect c e outcome evs) \<noteq> None \<longrightarrow>
        \<not> isConnecting (fst (snd (connect c e outcome evs)))
        \<and> fst (connect_begin (fst (snd (connect c e outcome evs)))) = Inr ())
   \<and> (isConnecting c \<longrightarrow>
        connect c e outcome evs = (Some (Inl (Error ''Connection already in progress'')), c, []))"
proof -
  have settles: "EvTimeout \<in> set evs \<Longrightarrow> fst (connect c e outcome evs) \<noteq> None"
    using connect_resume_settles [of evs]
    by (cases "isConnecting c") (simp_all add: connect_in_progress_rejected connect_fresh)
  have ends: "\<not> isConnecting (fst (snd (connect c e outcome evs)))"
    if "\<not> isConnecting c" and "fst (connect c e outcome evs) \<noteq> None"
    using that connect_resume_ends [of "c\<lparr>isConnecting := True\<rparr>" e outcome evs]
    by (simp add: connect_fresh)
  have again: "fst (connect_begin c') = Inr ()" if "\<not> isConnecting c'" for c'
    using that by (simp add: connect_begin_def Let_def)
  show ?thesis
    using settles ends again connect_in_progress_rejected [of c e outcome evs] by blast
qed

text \<open>
  C9, as stated, fails for a call made while another is pending: it ends at once,
  rejected, and \<open>isConnecting\<close> is still set when it has ended.
\<close>

theorem connect_rejected_keeps_isConnecting:
  "fst (connect (fst (snd (connect_begin (initial_client ''k1''))))
        \<lparr>io_source = BrowserIO, io_throws = None, now = ''t''\<rparr> (FetchRejects ''unused'') []) =
     Some (Inl (Error ''Connection already in progress''))
   \<and> isConnecting (fst (snd (connect (fst (snd (connect_begin (initial_client ''k1''))))
        \<lparr>io_source = BrowserIO, io_throws = None, now = ''t''\<rparr> (FetchRejects ''unused'') [])))"
  by (simp add: connect_def connect_begin_def initial_client_def Let_def)

text \<open>
  The theorem at a fresh session whose key the server refuses (status 401): \<open>connect\<close>
  rejects and the flag is clear; and at a session whose flag is set.
\<close>

theorem connect_clears_isConnecting_witness:
  "EvTimeout \<in> set [EvTimeout] \<and> \<not> isConnecting (initial_client ''k1'')
   \<and> fst (connect (initial_client ''k1'')
      \<lparr>io_source = BrowserIO, io_throws = None, now = ''t''\<rparr>
      (FetchResponse \<lparr>status = 401, statusText = ''Unauthorized'', headers = Map.empty,
         body = Parsed (JObject [(''message'', ''bad key'')])\<rparr>) [EvTimeout]) =
      Some (Inl (Error (''Failed to connect to Cybernate: API request failed: '' @
                        ''Authentication failed: bad key'')))
   \<and> \<not> isConnecting (fst (snd (connect (initial_client ''k1'')
      \<lparr>io_source = BrowserIO, io_throws = None, now = ''t''\<rparr>
      (FetchResponse \<lparr>status = 401, statusText = ''Unauthorized'', headers = Map.empty,
         body = Parsed (JObject [(''message'', ''bad key'')])\<rparr>) [EvTimeout])))
   \<and> isConnecting ((initial_client ''k1'')\<lparr>isConnecting := True\<rparr>)
   \<and> connect ((initial_client ''k1'')\<lparr>isConnecting := True\<rparr>)
      \<lparr>io_source = BrowserIO, io_throws = None, now = ''t''\<rparr> (FetchRejects ''unused'') [] =
     (Some (Inl (Error ''Connection already in progress'')),
      (initial_client ''k1'')\<lparr>isConnecting := True\<rparr>, [])"
proof -
  have flag: "isConnecting ((initial_client ''k1'')\<lparr>isConnecting := True\<rparr>)" by simp
  have res: "fst (connect (initial_client ''k1'')
      \<lparr>io_source = BrowserIO, io_throws = None, now = ''t''\<rparr>
      (FetchResponse \<lparr>status = 401, statusText = ''Unauthorized'', headers = Map.empty,
         body = Parsed (JObject [(''message'', ''bad key'')])\<rparr>) [EvTimeout]) =
      Some (Inl (Error (''Failed to connect to Cybernate: API request failed: '' @
                        ''Authentication failed: bad key'')))"
    by (simp add: connect_def connect_begin_def connect_resume_def request_receive_def
        connect_failed_def initial_client_def ok_def http_error_message_def or_default_def
        request_failed_def Let_def)
  show ?thesis
    using connect_clears_isConnecting [where c = "initial_client ''k1''"
        and e = "\<lparr>io_source = BrowserIO, io_throws = None, now = ''t''\<rparr>"
        and outcome = "FetchResponse \<lparr>status = 401, statusText = ''Unauthorized'',
           headers = Map.empty, body = Parsed (JObject [(''message'', ''bad key'')])\<rparr>"
        and evs = "[EvTimeout]"]
      connect_clears_isConnecting [where c = "(initial_client ''k1'')\<lparr>isConnecting := True\<rparr>"
        and e = "\<lparr>io_source = BrowserIO, io_throws = None, now = ''t''\<rparr>"
        and outcome = "FetchRejects ''unused''" and evs = "[]"]
      flag res
    by (simp add: initial_client_def)
qed

subsection \<open>At most one \<open>connect\<close> in progress\<close>

lemma run_at_most_one:
  "disconnect_when_idle e calls (c, n) \<Longrightarrow> n \<le> 1 \<Longrightarrow> (n = 1 \<longrightarrow> isConnecting c) \<Longrightarrow>
     snd (run e calls (c, n)) \<le> 1"
proof (induction calls arbitrary: c n)
  case Nil
  then show ?case by simp
next
  case (Cons x calls)
  show ?case
  proof (cases x)
    case CallConnect
    show ?thesis
    proof (cases "isConnecting c")
      case True
      then show ?thesis
        using Cons CallConnect by (simp add: connect_begin_def)
    next
      case False
      with Cons.prems have "n = 0" by auto
      then show ?thesis
        using Cons.IH [of "c\<lparr>isConnecting := True\<rparr>" "Suc 0"] Cons.prems False CallConnect
        by (simp add: connect_begin_def Let_def)
    qed
  next
    case (EndConnect outcome evs)
    show ?thesis
    proof (cases "n = 0")
      case True
      then show ?thesis using Cons EndConnect by simp
    next
      case False
      show ?thesis
      proof (cases "connect_resume c e outcome evs")
        case (fields res c1 effs)
        show ?thesis
        proof (cases res)
          case None
          then show ?thesis using Cons EndConnect False fields by simp
        next
          case (Some r)
          then show ?thesis
            using Cons.IH [of c1 0] Cons.prems EndConnect False fields by simp
        qed
      qed
    qed
  next
    case CallDisconnect
    then have "n = 0" and "disconnect_when_idle e calls (fst (disconnect c), 0)"
      using Cons.prems by auto
    then show ?thesis
      using Cons.IH [of "fst (disconnect c)" 0] CallDisconnect by simp
  qed
qed

text \<open>
  C4, as the code has it. A \<open>connect\<close> called while \<open>isConnecting\<close> is set rejects at once
  with \<open>Connection already in progress\<close>, sends nothing and changes nothing. A call that
  passes the guard sets the flag, and only the end of that call or \<open>disconnect\<close> clears
  it: in a schedule of \<open>connect\<close> calls, their ends and \<open>disconnect\<close> calls, where
  \<open>disconnect\<close> is called only when no \<open>connect\<close> is in progress, never more than one
  call is past the guard and not ended.
\<close>

theorem connect_in_progress:
  "(isConnecting c \<longrightarrow>
      connect c e outcome evs = (Some (Inl (Error ''Connection already in progress'')), c, []))
   \<and> (\<not> isConnecting c \<longrightarrow> isConnecting (fst (snd (connect_begin c))))
   \<and> (disconnect_when_idle e calls (c, 0) \<longrightarrow> snd (run e calls (c, 0)) \<le> 1)"
  using run_at_most_one [of e calls c 0] connect_in_progress_rejected [of c e outcome evs]
  by (simp add: connect_begin_def Let_def)

text \<open>
  C4, as stated, fails when \<open>disconnect\<close> is called while a \<open>connect\<close> is pending: the
  flag is cleared, the pending call goes on, and the next \<open>connect\<close> passes the guard
  and sends a second validation request. Two calls are then in progress.
\<close>

theorem connect_twice_after_disconnect:
  "snd (run \<lparr>io_source = BrowserIO, io_throws = None, now = ''t''\<rparr>
         [CallConnect, CallDisconnect, CallConnect] (initial_client ''k1'', 0)) = 2
   \<and> connect_begin
        (fst (disconnect (fst (snd (connect_begin (initial_client ''k1'')))))) =
       (Inr (), (initial_client ''k1'')\<lparr>isConnecting := True\<rparr>,
        [ConsoleLog ''API Request:'',
         Fetch ''GET'' ''https://api.cybernate.ai/v1/auth/validate'' None])"
  by (simp add: connect_begin_def disconnect_def initial_client_def request_send_def Let_def)

text \<open>
  The theorem at a fresh session on which \<open>connect\<close> has just been called, and at the
  schedule on a fresh session where \<open>connect\<close> is called twice in a row, the pending
  call ends (the network is down), \<open>disconnect\<close> is called and \<open>connect\<close> is called
  again.
\<close>

theorem connect_in_progress_witness:
  "isConnecting (fst (snd (connect_begin (initial_client ''k1''))))
   \<and> connect (fst (snd (connect_begin (initial_client ''k1''))))
       \<lparr>io_source = BrowserIO, io_throws = None, now = ''t''\<rparr> (FetchRejects ''unused'') [] =
      (Some (Inl (Error ''Connection already in progress'')),
       fst (snd (connect_begin (initial_client ''k1''))), [])
   \<and> disconnect_when_idle \<lparr>io_source = BrowserIO, io_throws = None, now = ''t''\<rparr>
        [CallConnect, CallConnect, EndConnect (FetchRejects ''down'') [], CallDisconnect,
         CallConnect]
        (initial_client ''k1'', 0)
   \<and> snd (run \<lparr>io_source = BrowserIO, io_throws = None, now = ''t''\<rparr>
        [CallConnect, CallConnect, EndConnect (FetchRejects ''down'') [], CallDisconnect,
         CallConnect]
        (initial_client ''k1'', 0)) \<le> 1"
proof -
  have idle: "disconnect_when_idle \<lparr>io_source = BrowserIO, io_throws = None, now = ''t''\<rparr>
        [CallConnect, CallConnect, EndConnect (FetchRejects ''down'') [], CallDisconnect,
         CallConnect]
        (initial_client ''k1'', 0)"
    by (simp add: connect_begin_def connect_resume_def request_receive_def connect_failed_def
        initial_client_def Let_def)
  show ?thesis
    using connect_in_progress [where c = "fst (snd (connect_begin (initial_client ''k1'')))"
        and e = "\<lparr>io_source = BrowserIO, io_throws = None, now = ''t''\<rparr>"
        and outcome = "FetchRejects ''unused''" and evs = "[]" and calls = "[]"]
      connect_in_progress [where c = "initial_client ''k1''"
        and e = "\<lparr>io_source = BrowserIO, io_throws = None, now = ''t''\<rparr>"
        and calls = "[CallConnect, CallConnect, EndConnect (FetchRejects ''down'') [],
                      CallDisconnect, CallConnect]"]
      idle
    by (simp add: initial_client_def connect_begin_def Let_def)
qed

subsection \<open>A stream setup that fails\<close>

text \<open>
  The stream setup neither reads nor writes the fields \<open>connect\<close> has written before
  it starts.
\<close>

lemma open_socket_frame:
  "open_socket (c\<lparr>isConnecting := True, rateLimit := rl, user := u, organization := org\<rparr>) e =
     (fst (open_socket c e), (fst (snd (open_socket c e)))\<lparr>isConnecting := True, rateLimit := rl, user := u, organization := org\<rparr>,
      snd (snd (open_socket c e)))"
  by (simp add: open_socket_def Let_def split: option.splits)

lemma setupWebSocket_frame:
  "setupWebSocket (c\<lparr>isConnecting := True, rateLimit := rl, user := u, organization := org\<rparr>) e =
     (fst (setupWebSocket c e), (fst (snd (setupWebSocket c e)))\<lparr>isConnecting := True, rateLimit := rl, user := u, organization := org\<rparr>,
      snd (snd (setupWebSocket c e)))"
  by (simp add: setupWebSocket_def open_socket_frame split_beta split: io_source.splits)

lemma await_setup_frame:
  "await_setup (c\<lparr>isConnecting := True, rateLimit := rl, user := u, organization := org\<rparr>) evs =
     (fst (await_setup c evs), (fst (snd (await_setup c evs)))\<lparr>isConnecting := True, rateLimit := rl, user := u, organization := org\<rparr>,
      snd (snd (await_setup c evs)))"
proof (induction c evs rule: await_setup.induct)
  case (1 c)
  then show ?case by simp
next
  case (2 c evs)
  then show ?case by (simp add: on_connect_def)
next
  case (3 c m evs)
  then show ?case by (simp add: split_beta)
next
  case (4 c evs)
  then show ?case by (simp add: split_beta socket_connected_def)
qed

lemma await_setupWebSocket_frame:
  "await_setupWebSocket (c\<lparr>isConnecting := True, rateLimit := rl, user := u, organization := org\<rparr>) e evs =
     (fst (await_setupWebSocket c e evs),
      (fst (snd (await_setupWebSocket c e evs)))\<lparr>isConnecting := True, rateLimit := rl, user := u, organization := org\<rparr>,
      snd (snd (await_setupWebSocket c e evs)))"
  by (cases "fst (setupWebSocket c e)")
     (simp_all add: await_setupWebSocket_def setupWebSocket_frame await_setup_frame
       split_beta)

text \<open>A setup that is rejected leaves no connected socket, but for one case.\<close>

lemma await_setup_rejected:
  "\<not> socket_connected c \<Longrightarrow> fst (await_setup c evs) = Rejected err \<Longrightarrow>
     \<not> socket_connected (fst (snd (await_setup c evs)))"
  by (induction c evs rule: await_setup.induct)
     (auto simp add: split_beta on_connect_def split: if_splits)

lemma open_socket_not_connected:
  "\<not> socket_connected (fst (snd (open_socket c e)))"
  by (simp add: open_socket_def Let_def socket_connected_def split: option.splits)

lemma await_setupWebSocket_rejected:
  assumes "fst (await_setupWebSocket c e evs) = Rejected err"
    and "socketIsEnabled e"
    and "socket_connected c \<longrightarrow> io_source e \<noteq> NodeIO True False"
  shows "\<not> socket_connected (fst (snd (await_setupWebSocket c e evs)))"
proof (cases "io_source e = BrowserIO \<or> (\<exists>r. io_source e = NodeIO r True)")
  case True
  then have su: "setupWebSocket c e =
      (fst (open_socket c e), fst (snd (open_socket c e)), SetupAttempt # snd (snd (open_socket c e)))"
    using assms(2) by (auto simp add: setupWebSocket_def split_beta)
  show ?thesis
  proof (cases "fst (open_socket c e)")
    case Pending
    then show ?thesis
      using su assms(1) open_socket_not_connected [of c e]
        await_setup_rejected [of "fst (snd (open_socket c e))" evs err]
      by (simp add: await_setupWebSocket_def split_beta)
  qed (use su open_socket_not_connected [of c e] in \<open>simp_all add: await_setupWebSocket_def\<close>)
next
  case False
  then have "io_source e = NodeIO True False"
    using assms(2) by (cases "io_source e") (auto simp add: socketIsEnabled_def)
  then show ?thesis
    using assms(2,3) by (simp add: await_setupWebSocket_def setupWebSocket_def)
qed

text \<open>
  C2. \<open>connect\<close> is called on a session with no \<open>connect\<close> pending; the validation
  request is answered by an ok response whose body is an object; the stream is enabled
  and its setup, attempted, is rejected. Then \<open>connect\<close> resolves: the session is
  connected, the result says that the stream is not, the last thing done is the
  warning that carries the cause, and the connected check of a resource call passes.
  (The last hypothesis: a session whose stream is up runs where the socket library
  loads.)
\<close>

theorem connect_survives_stream_failure:
  assumes "\<not> isConnecting c"
    and "ok r" and "body r = Parsed (JObject kvs)"
    and "enableWebSocket c" and "socketIsEnabled e"
    and "fst (await_setupWebSocket c e evs) = Rejected err"
    and "socket_connected c \<longrightarrow> io_source e \<noteq> NodeIO True False"
  shows "fst (connect c e (FetchResponse r) evs) =
           Some (Inr \<lparr>res_connected = True, res_user = map_of kvs ''user'',
                       res_organization = map_of kvs ''organization'',
                       websocketEnabled = False\<rparr>)
         \<and> isConnected (fst (snd (connect c e (FetchResponse r) evs)))
         \<and> \<not> isConnecting (fst (snd (connect c e (FetchResponse r) evs)))
         \<and> \<not> socket_connected (fst (snd (connect c e (FetchResponse r) evs)))
         \<and> ensureConnected (fst (snd (connect c e (FetchResponse r) evs))) = Inr ()
         \<and> last (snd (snd (connect c e (FetchResponse r) evs))) =
             ConsoleWarn (''WebSocket connection failed, '' @
                          ''falling back to HTTP-only mode: '' @ message err)"
proof -
  define rl where "rl = track_rate_limits r (rateLimit c)"
  define u where "u = map_of kvs ''user''"
  define org where "org = map_of kvs ''organization''"
  define c3 where "c3 = fst (snd (await_setupWebSocket c e evs))"
  define effs2 where "effs2 = snd (snd (await_setupWebSocket c e evs))"
  have rej: "await_setupWebSocket (c\<lparr>isConnecting := True, rateLimit := rl, user := u, organization := org\<rparr>) e evs =
      (Rejected err, c3\<lparr>isConnecting := True, rateLimit := rl, user := u, organization := org\<rparr>, effs2)"
    using assms(6) by (simp add: await_setupWebSocket_frame c3_def effs2_def)
  have nc: "\<not> socket_connected c3"
    unfolding c3_def using assms(6,5,7) by (rule await_setupWebSocket_rejected)
  then have nc': "\<not> socket_connected (c3\<lparr>isConnecting := True, rateLimit := rl, user := u, organization := org\<rparr>)"
    by (simp add: socket_connected_def)
  have "connect c e (FetchResponse r) evs =
      connect_done (c3\<lparr>isConnecting := True, rateLimit := rl, user := u, organization := org\<rparr>)
        ((request_send (c\<lparr>isConnecting := True\<rparr>) ''GET'' ''/auth/validate'' None @
          [ConsoleLog ''API Response:'']) @ effs2 @
         [ConsoleWarn (''WebSocket connection failed, '' @
                       ''falling back to HTTP-only mode: '' @ message err)])"
    using assms(1-5) rej
    by (simp add: connect_def connect_begin_def connect_resume_def request_receive_def Let_def
        rl_def u_def org_def connect_done_def)
  then show ?thesis
    using nc'
    by (simp add: connect_done_def Let_def ensureConnected_def
        socket_connected_def u_def org_def)
qed

text \<open>
  The theorem at a fresh session in a browser: the validation answers 200 with a user
  and an organization, and the stream setup runs into its timeout.
\<close>

theorem connect_survives_stream_failure_witness:
  "\<not> isConnecting (initial_client ''k1'')
   \<and> ok \<lparr>status = 200, statusText = ''OK'', headers = Map.empty,
          body = Parsed (JObject [(''user'', ''u1''), (''organization'', ''o1'')])\<rparr>
   \<and> enableWebSocket (initial_client ''k1'')
   \<and> socketIsEnabled \<lparr>io_source = BrowserIO, io_throws = None, now = ''t''\<rparr>
   \<and> fst (await_setupWebSocket (initial_client ''k1'')
          \<lparr>io_source = BrowserIO, io_throws = None, now = ''t''\<rparr> [EvTimeout]) =
       Rejected (Error ''WebSocket connection timeout'')
   \<and> fst (connect (initial_client ''k1'')
          \<lparr>io_source = BrowserIO, io_throws = None, now = ''t''\<rparr>
          (FetchResponse \<lparr>status = 200, statusText = ''OK'', headers = Map.empty,
             body = Parsed (JObject [(''user'', ''u1''), (''organization'', ''o1'')])\<rparr>)
          [EvTimeout]) =
       Some (Inr \<lparr>res_connected = True, res_user = Some ''u1'',
                   res_organization = Some ''o1'', websocketEnabled = False\<rparr>)
   \<and> isConnected (fst (snd (connect (initial_client ''k1'')
          \<lparr>io_source = BrowserIO, io_throws = None, now = ''t''\<rparr>
          (FetchResponse \<lparr>status = 200, statusText = ''OK'', headers = Map.empty,
             body = Parsed (JObject [(''user'', ''u1''), (''organization'', ''o1'')])\<rparr>)
          [EvTimeout])))"
proof -
  have rejected: "fst (await_setupWebSocket (initial_client ''k1'')
          \<lparr>io_source = BrowserIO, io_throws = None, now = ''t''\<rparr> [EvTimeout]) =
       Rejected (Error ''WebSocket connection timeout'')"
    by (simp add: await_setupWebSocket_def setupWebSocket_def open_socket_def
        socketIsEnabled_def socket_connected_def initial_client_def Let_def)
  have fresh: "\<not> socket_connected (initial_client ''k1'')"
    by (simp add: socket_connected_def initial_client_def)
  show ?thesis
    using connect_survives_stream_failure [where c = "initial_client ''k1''"
        and e = "\<lparr>io_source = BrowserIO, io_throws = None, now = ''t''\<rparr>"
        and r = "\<lparr>status = 200, statusText = ''OK'', headers = Map.empty,
             body = Parsed (JObject [(''user'', ''u1''), (''organization'', ''o1'')])\<rparr>"
        and kvs = "[(''user'', ''u1''), (''organization'', ''o1'')]"
        and evs = "[EvTimeout]" and err = "Error ''WebSocket connection timeout''"]
      rejected fresh
    by (simp add: ok_def socketIsEnabled_def initial_client_def)
qed

section \<open>Reconnecting\<close>

lemma open_socket_policy:
  "reconnectCount (fst (snd (open_socket c e))) = reconnectCount c
   \<and> reconnectAttempts (fst (snd (open_socket c e))) = reconnectAttempts c
   \<and> reconnectDelay (fst (snd (open_socket c e))) = reconnectDelay c
   \<and> autoReconnect (fst (snd (open_socket c e))) = autoReconnect c"
  by (simp add: open_socket_def Let_def split: option.splits)

lemma open_socket_effects:
  "count_list (snd (snd (open_socket c e))) SetupAttempt = 0
   \<and> count_list (snd (snd (open_socket c e))) (SetTimeout d ReconnectTimer) = 0"
  by (simp add: open_socket_def Let_def split: option.splits)

lemma setupWebSocket_policy:
  "reconnectCount (fst (snd (setupWebSocket c e))) = reconnectCount c
   \<and> reconnectAttempts (fst (snd (setupWebSocket c e))) = reconnectAttempts c
   \<and> reconnectDelay (fst (snd (setupWebSocket c e))) = reconnectDelay c
   \<and> autoReconnect (fst (snd (setupWebSocket c e))) = autoReconnect c"
  using open_socket_policy [of c e]
  by (simp add: setupWebSocket_def split_beta split: io_source.splits)

lemma setupWebSocket_effects:
  "count_list (snd (snd (setupWebSocket c e))) SetupAttempt = 1
   \<and> count_list (snd (snd (setupWebSocket c e))) (SetTimeout d ReconnectTimer) = 0"
  using open_socket_effects [of c e d]
  by (simp add: setupWebSocket_def split_beta split: io_source.splits)

lemma await_setup_effects:
  "count_list (snd (snd (await_setup c evs))) SetupAttempt = 0"
  by (induction c evs rule: await_setup.induct)
     (simp_all add: split_beta on_connect_def split: option.splits)

lemma await_setupWebSocket_effects:
  "count_list (snd (snd (await_setupWebSocket c e evs))) SetupAttempt = 1"
  using setupWebSocket_effects [of c e] await_setup_effects [of "fst (snd (setupWebSocket c e))" evs]
  by (cases "fst (setupWebSocket c e)") (simp_all add: await_setupWebSocket_def split_beta)

lemma await_setup_resolved:
  "fst (await_setup c evs) = Resolved \<Longrightarrow> reconnectCount (fst (snd (await_setup c evs))) = 0"
  by (induction c evs rule: await_setup.induct)
     (auto simp add: split_beta on_connect_def split: if_splits)

lemma reconnect_timer_below:
  assumes "reconnectCount c < reconnectAttempts c"
  shows "reconnectCount (fst (reconnect_timer c e)) = Suc (reconnectCount c)
   \<and> reconnectAttempts (fst (reconnect_timer c e)) = reconnectAttempts c
   \<and> reconnectDelay (fst (reconnect_timer c e)) = reconnectDelay c
   \<and> autoReconnect (fst (reconnect_timer c e)) = autoReconnect c
   \<and> count_list (snd (reconnect_timer c e)) SetupAttempt = 1
   \<and> count_list (snd (reconnect_timer c e)) (SetTimeout d ReconnectTimer) = 0"
  using assms setupWebSocket_policy [of "c\<lparr>reconnectCount := reconnectCount c + 1\<rparr>" e]
    setupWebSocket_effects [of "c\<lparr>reconnectCount := reconnectCount c + 1\<rparr>" e d]
  by (simp add: reconnect_timer_def Let_def split_beta)

lemma reconnect_timer_reached:
  "reconnectAttempts c \<le> reconnectCount c \<Longrightarrow> reconnect_timer c e = (c, [])"
  by (simp add: reconnect_timer_def)

lemma on_disconnect_server:
  "autoReconnect c \<Longrightarrow>
     snd (on_disconnect c ''io server disconnect'') =
       [ConsoleLog ''Disconnected from Cybernate events socket:'',
        SetTimeout (reconnectDelay c) ReconnectTimer]
     \<and> reconnectCount (fst (on_disconnect c ''io server disconnect'')) = reconnectCount c
     \<and> reconnectAttempts (fst (on_disconnect c ''io server disconnect'')) = reconnectAttempts c
     \<and> reconnectDelay (fst (on_disconnect c ''io server disconnect'')) = reconnectDelay c
     \<and> autoReconnect (fst (on_disconnect c ''io server disconnect''))"
  by (simp add: on_disconnect_def)

lemma server_disconnects_count:
  "autoReconnect c \<Longrightarrow>
     count_list (snd (server_disconnects k e c)) SetupAttempt =
       min k (reconnectAttempts c - reconnectCount c)
     \<and> count_list (snd (server_disconnects k e c)) (SetTimeout (reconnectDelay c) ReconnectTimer) = k
     \<and> reconnectCount (fst (server_disconnects k e c)) =
         reconnectCount c + min k (reconnectAttempts c - reconnectCount c)"
proof (induction k arbitrary: c)
  case 0
  then show ?case by simp
next
  case (Suc k)
  let ?c1 = "fst (on_disconnect c ''io server disconnect'')"
  let ?c2 = "fst (reconnect_timer ?c1 e)"
  note d = on_disconnect_server [OF Suc.prems]
  show ?case
  proof (cases "reconnectCount c < reconnectAttempts c")
    case True
    then have lt: "reconnectCount ?c1 < reconnectAttempts ?c1" using d by simp
    note t = reconnect_timer_below [OF lt, of e "reconnectDelay c"]
    have "autoReconnect ?c2" using t d by simp
    from Suc.IH [OF this] t d True show ?thesis
      by (simp add: split_beta)
  next
    case False
    then have ge: "reconnectAttempts ?c1 \<le> reconnectCount ?c1" using d by simp
    note t = reconnect_timer_reached [OF ge, of e]
    have "autoReconnect ?c1" using d by simp
    from Suc.IH [OF this] t d False show ?thesis
      by (simp add: split_beta)
  qed
qed

text \<open>
  C6. With auto-reconnect on, each disconnect by the server sets one timer of the
  configured delay; when it fires, an attempt is made and the counter goes up by one as
  long as the counter is below the maximum \<open>N\<close> (the field \<open>reconnectAttempts\<close>), and
  nothing is done once it has reached it. So \<open>k\<close> such disconnects in a row make
  \<open>min k (N - count)\<close> attempts: exactly \<open>N\<close> from a counter at 0 when \<open>k\<close> is at least
  \<open>N\<close>. A setup that resolves leaves the counter at 0.
\<close>

theorem automatic_reconnect_attempts:
  assumes "autoReconnect c"
  shows "count_list (snd (server_disconnects k e c)) SetupAttempt =
           min k (reconnectAttempts c - reconnectCount c)
     \<and> count_list (snd (server_disconnects k e c)) (SetTimeout (reconnectDelay c) ReconnectTimer) = k
     \<and> reconnectCount (fst (server_disconnects k e c)) =
         reconnectCount c + min k (reconnectAttempts c - reconnectCount c)
     \<and> (reconnectCount c = 0 \<and> reconnectAttempts c \<le> k \<longrightarrow>
          count_list (snd (server_disconnects k e c)) SetupAttempt = reconnectAttempts c)
     \<and> (reconnectAttempts c \<le> reconnectCount c \<longrightarrow> reconnect_timer c e = (c, []))
     \<and> (fst (await_setup c evs) = Resolved \<longrightarrow>
          reconnectCount (fst (snd (await_setup c evs))) = 0)"
  using server_disconnects_count [OF assms, of k e] reconnect_timer_reached [of c e]
    await_setup_resolved [of c evs]
  by simp

text \<open>
  The theorem at a session with at most 3 attempts and 5 disconnects by the server:
  3 attempts, 5 timers, and the counter at 3.
\<close>

theorem automatic_reconnect_attempts_witness:
  "autoReconnect ((initial_client ''k1'')\<lparr>reconnectAttempts := 3\<rparr>)
   \<and> count_list (snd (server_disconnects 5
          \<lparr>io_source = BrowserIO, io_throws = None, now = ''t''\<rparr>
          ((initial_client ''k1'')\<lparr>reconnectAttempts := 3\<rparr>))) SetupAttempt = 3
   \<and> count_list (snd (server_disconnects 5
          \<lparr>io_source = BrowserIO, io_throws = None, now = ''t''\<rparr>
          ((initial_client ''k1'')\<lparr>reconnectAttempts := 3\<rparr>))) (SetTimeout 1000 ReconnectTimer) = 5
   \<and> reconnectCount (fst (server_disconnects 5
          \<lparr>io_source = BrowserIO, io_throws = None, now = ''t''\<rparr>
          ((initial_client ''k1'')\<lparr>reconnectAttempts := 3\<rparr>))) = 3
   \<and> reconnect_timer ((initial_client ''k1'')\<lparr>reconnectAttempts := 3, reconnectCount := 3\<rparr>)
          \<lparr>io_source = BrowserIO, io_throws = None, now = ''t''\<rparr> =
         ((initial_client ''k1'')\<lparr>reconnectAttempts := 3, reconnectCount := 3\<rparr>, [])
   \<and> fst (await_setup ((initial_client ''k1'')\<lparr>reconnectCount := 2\<rparr>) [EvConnect]) = Resolved
   \<and> reconnectCount
         (fst (snd (await_setup ((initial_client ''k1'')\<lparr>reconnectCount := 2\<rparr>) [EvConnect]))) = 0"
proof -
  have auto3: "autoReconnect ((initial_client ''k1'')\<lparr>reconnectAttempts := 3\<rparr>)"
    and auto33: "autoReconnect
        ((initial_client ''k1'')\<lparr>reconnectAttempts := 3, reconnectCount := 3\<rparr>)"
    and auto2: "autoReconnect ((initial_client ''k1'')\<lparr>reconnectCount := 2\<rparr>)"
    by (simp_all add: initial_client_def)
  have resolved:
    "fst (await_setup ((initial_client ''k1'')\<lparr>reconnectCount := 2\<rparr>) [EvConnect]) = Resolved"
    by (simp add: split_beta)
  show ?thesis
    using automatic_reconnect_attempts [OF auto3, of 5
        "\<lparr>io_source = BrowserIO, io_throws = None, now = ''t''\<rparr>" "[]"]
      automatic_reconnect_attempts [OF auto33, of 0
        "\<lparr>io_source = BrowserIO, io_throws = None, now = ''t''\<rparr>" "[]"]
      automatic_reconnect_attempts [OF auto2, of 0
        "\<lparr>io_source = BrowserIO, io_throws = None, now = ''t''\<rparr>" "[EvConnect]"]
      auto3 resolved
    by (simp add: initial_client_def)
qed

section \<open>The manual retry\<close>

text \<open>
  C7, as the code has it. Whatever the reconnect counter, \<open>retryWebSocketConnection\<close>
  calls \<open>_setupWebSocket\<close> at most once. When the stream is disabled or the socket
  library is not available it throws, with no attempt. Otherwise it does not throw:
  with the stream connected it returns true with no attempt; with the stream not
  connected it makes exactly one attempt and returns true when the attempt resolves
  and false when it is rejected, and it has returned once the connection timeout has
  fired.
\<close>

theorem retry_stream:
  "count_list (snd (snd (retryWebSocketConnection c e evs))) SetupAttempt \<le> 1
   \<and> (\<not> (enableWebSocket c \<and> socketIsEnabled e) \<longrightarrow>
        retryWebSocketConnection c e evs =
          (Some (Inl (Error ''WebSocket not enabled or available'')), c, []))
   \<and> (enableWebSocket c \<and> socketIsEnabled e \<and> socket_connected c \<longrightarrow>
        retryWebSocketConnection c e evs = (Some (Inr True), c, []))
   \<and> (enableWebSocket c \<and> socketIsEnabled e \<and> \<not> socket_connected c \<longrightarrow>
        count_list (snd (snd (retryWebSocketConnection c e evs))) SetupAttempt = 1
        \<and> fst (retryWebSocketConnection c e evs) =
            (case fst (await_setupWebSocket c e evs) of
               Pending \<Rightarrow> None
             | Resolved \<Rightarrow> Some (Inr True)
             | Rejected err \<Rightarrow> Some (Inr False)))
   \<and> (enableWebSocket c \<and> socketIsEnabled e \<and> EvTimeout \<in> set evs \<longrightarrow>
        (\<exists>b. fst (retryWebSocketConnection c e evs) = Some (Inr b)))"
proof -
  have one: "count_list (snd (snd (await_setupWebSocket c e evs))) SetupAttempt = 1"
    by (rule await_setupWebSocket_effects)
  have settles: "EvTimeout \<in> set evs \<Longrightarrow> fst (await_setupWebSocket c e evs) \<noteq> Pending"
    by (rule await_setupWebSocket_settles)
  show ?thesis
    using one settles
    by (cases "fst (await_setupWebSocket c e evs)")
       (auto simp add: retryWebSocketConnection_def split_beta split: settle.splits)
qed

text \<open>
  C7, as stated, fails where the socket library is not installed: the retry throws.
\<close>

theorem retry_throws_when_unavailable:
  "retryWebSocketConnection (initial_client ''k1'')
     \<lparr>io_source = NodeIO False False, io_throws = None, now = ''t''\<rparr> [] =
   (Some (Inl (Error ''WebSocket not enabled or available'')), initial_client ''k1'', [])"
  by (simp add: retryWebSocketConnection_def socketIsEnabled_def)

text \<open>
  The theorem at a fresh session in a browser whose setup runs into its timeout (one
  attempt, false), at a session whose reconnect counter has reached its maximum (one
  attempt all the same), and where the library is missing.
\<close>

theorem retry_stream_witness:
  "enableWebSocket (initial_client ''k1'')
   \<and> socketIsEnabled \<lparr>io_source = BrowserIO, io_throws = None, now = ''t''\<rparr>
   \<and> \<not> socket_connected (initial_client ''k1'')
   \<and> EvTimeout \<in> set [EvTimeout]
   \<and> fst (retryWebSocketConnection (initial_client ''k1'')
          \<lparr>io_source = BrowserIO, io_throws = None, now = ''t''\<rparr> [EvTimeout]) =
       Some (Inr False)
   \<and> count_list (snd (snd (retryWebSocketConnection (initial_client ''k1'')
          \<lparr>io_source = BrowserIO, io_throws = None, now = ''t''\<rparr> [EvTimeout]))) SetupAttempt = 1
   \<and> count_list (snd (snd (retryWebSocketConnection
          ((initial_client ''k1'')\<lparr>reconnectCount := 5\<rparr>)
          \<lparr>io_source = BrowserIO, io_throws = None, now = ''t''\<rparr> [EvConnect]))) SetupAttempt = 1
   \<and> retryWebSocketConnection
         ((initial_client ''k1'')\<lparr>socket := Some \<lparr>connected = True\<rparr>\<rparr>)
         \<lparr>io_source = BrowserIO, io_throws = None, now = ''t''\<rparr> [] =
       (Some (Inr True), (initial_client ''k1'')\<lparr>socket := Some \<lparr>connected = True\<rparr>\<rparr>, [])
   \<and> \<not> socketIsEnabled \<lparr>io_source = NoIO, io_throws = None, now = ''t''\<rparr>
   \<and> retryWebSocketConnection (initial_client ''k1'')
         \<lparr>io_source = NoIO, io_throws = None, now = ''t''\<rparr> [] =
       (Some (Inl (Error ''WebSocket not enabled or available'')), initial_client ''k1'', [])"
proof -
  have rejected: "fst (await_setupWebSocket (initial_client ''k1'')
          \<lparr>io_source = BrowserIO, io_throws = None, now = ''t''\<rparr> [EvTimeout]) =
       Rejected (Error ''WebSocket connection timeout'')"
    by (simp add: await_setupWebSocket_def setupWebSocket_def open_socket_def
        socketIsEnabled_def socket_connected_def initial_client_def Let_def)
  show ?thesis
    using retry_stream [where c = "initial_client ''k1''"
        and e = "\<lparr>io_source = BrowserIO, io_throws = None, now = ''t''\<rparr>"
        and evs = "[EvTimeout]"]
      retry_stream [where c = "(initial_client ''k1'')\<lparr>reconnectCount := 5\<rparr>"
        and e = "\<lparr>io_source = BrowserIO, io_throws = None, now = ''t''\<rparr>"
        and evs = "[EvConnect]"]
      retry_stream [where c = "(initial_client ''k1'')\<lparr>socket := Some \<lparr>connected = True\<rparr>\<rparr>"
        and e = "\<lparr>io_source = BrowserIO, io_throws = None, now = ''t''\<rparr>"
        and evs = "[]"]
      retry_stream [where c = "initial_client ''k1''"
        and e = "\<lparr>io_source = NoIO, io_throws = None, now = ''t''\<rparr>"
        and evs = "[]"]
      rejected
    by (simp add: socketIsEnabled_def socket_connected_def initial_client_def)
qed

end
